theory Spec2Isabelle
  imports Complex_Main
begin

section \<open>Scalars as the tracker compares them\<close>

text \<open>
  \<open>DenseTracker::match\<close> (dense_tracking.cpp) compares two kinds of floating-point
  scalars: the total error of an iteration against the error of the iteration before,
  and the largest component of the solved increment against \<open>cfg.Precision\<close>. An IEEE
  comparison is exact on the represented numbers and false as soon as one side is not
  a number, which is all the control flow of \<open>match\<close> depends on. The arithmetic that
  produces the scalars lives in kernels that are not part of the file; it is taken as
  a parameter below.
\<close>

datatype double = Num real | PosInf | NegInf | NaN

fun dless :: "double \<Rightarrow> double \<Rightarrow> bool" where
  "dless (Num a) (Num b) = (a < b)"
| "dless (Num a) PosInf = True"
| "dless NegInf (Num b) = True"
| "dless NegInf PosInf = True"
| "dless _ _ = False"

fun dle :: "double \<Rightarrow> double \<Rightarrow> bool" where
  "dle (Num a) (Num b) = (a \<le> b)"
| "dle (Num a) PosInf = True"
| "dle NegInf (Num b) = True"
| "dle NegInf PosInf = True"
| "dle NegInf NegInf = True"
| "dle PosInf PosInf = True"
| "dle _ _ = False"

fun dneg :: "double \<Rightarrow> double" where
  "dneg (Num a) = Num (- a)"
| "dneg PosInf = NegInf"
| "dneg NegInf = PosInf"
| "dneg NaN = NaN"

definition DBL_MAX :: double where
  \<comment> \<open>\<open>std::numeric_limits<double>::max()\<close>\<close>
  "DBL_MAX = Num ((2 ^ 53 - 1) * 2 ^ 971)"

text \<open>The same number written out, which is the form evaluation works with.\<close>

lemma DBL_MAX_numeral [code]:
  "DBL_MAX = Num
     179769313486231570814527423731704356798070567525844996598917476803157260780028538760589558632766878171540458953514382464234321326889464182768467546703537516986049910576551282076245490090389328944075868508455133942304583236903222948165808559332123348274797826204144723168738177180919299881250404026184124858368"
  by (simp add: DBL_MAX_def)

type_synonym Vector2f = "double list"
type_synonym Matrix2f = "double list list"

definition Vector2f_Zero :: Vector2f where
  \<comment> \<open>what \<open>setZero()\<close> leaves in a 2-vector\<close>
  "Vector2f_Zero = [Num 0, Num 0]"

definition Matrix2f_Zero :: Matrix2f where
  \<comment> \<open>what \<open>setZero()\<close> leaves in a 2x2 matrix\<close>
  "Matrix2f_Zero = [Vector2f_Zero, Vector2f_Zero]"

section \<open>Data of one registration call\<close>

text \<open>The fields of \<open>DenseTracker::Config\<close> that \<open>match\<close> reads.\<close>

record Config =
  FirstLevel :: int
  LastLevel :: int
  MaxIterationsPerLevel :: int
  Precision :: double
  Mu :: double
  UseInitialEstimate :: bool

text \<open>
  Modelled from the spec: \<open>Revertable\<close> (dvo/util/revertable.h) is not among the
  sources. \<open>match\<close> uses three of its operations: \<open>r.update() = v\<close> installs a new
  value and keeps the one it replaces, \<open>r()\<close> reads the current value (the trial pose
  of line 264 is read this way right after the update), and \<open>r.revert()\<close> goes back
  to the kept value. There is no call that commits: an update that is not reverted
  stays.
\<close>

record 'a Revertable =
  old :: 'a
  current :: 'a

definition Revertable_of :: "'a \<Rightarrow> 'a Revertable" where
  "Revertable_of v = \<lparr>old = v, current = v\<rparr>"

definition update :: "'a Revertable \<Rightarrow> 'a \<Rightarrow> 'a Revertable" where
  "update r v = \<lparr>old = current r, current = v\<rparr>"

definition revert :: "'a Revertable \<Rightarrow> 'a Revertable" where
  "revert r = r\<lparr>current := old r\<rparr>"

datatype TerminationCriteria = IterationsExceeded | IncrementTooSmall | LogLikelihoodDecreased

text \<open>
  \<open>EstimateIncrement\<close> and \<open>EstimateInformation\<close> are assigned only on an accepted
  iteration (lines 422 and 423); \<open>None\<close> is the default-constructed field that was
  never assigned. Likewise \<open>TerminationCriterion\<close> is \<open>None\<close> as long as none of the
  three assignments of lines 430 to 437 has run.
\<close>

record ('v, 'm) IterationStats =
  Id :: int
  ValidConstraints :: nat
  TDistributionLogLikelihood :: double
  TDistributionMean :: Vector2f
  TDistributionPrecision :: Matrix2f
  PriorLogLikelihood :: double
  EstimateIncrement :: "'v option"
  EstimateInformation :: "'m option"

record ('v, 'm) LevelStats =
  LevelId :: int
  MaxValidPixels :: nat
  ValidPixels :: nat
  Iterations :: "('v, 'm) IterationStats list"
  TerminationCriterion :: "TerminationCriteria option"

record ('p, 'v, 'm) Result =
  Transformation :: 'p
  Information :: "'m option"
  LogLikelihood :: double
  Levels :: "('v, 'm) LevelStats list"

section \<open>The collaborators of match\<close>

text \<open>
  Everything \<open>match\<close> calls and the file does not define: the Sophus rigid motions
  (\<open>'p\<close>, with tangent vectors \<open>'v\<close>), the conversion between \<open>Eigen::Affine3d\<close> and
  \<open>Sophus::SE3d\<close> (both are \<open>'p\<close> here), the point selection and the target pyramid
  (closed over by the functions that take a level, together with the intrinsics and
  the two weighting vectors of lines 213 to 222), the residual, weight, scale and
  likelihood kernels, the normal equations with their regularisation (lines 398 to
  417, \<open>'m\<close> is the 6x6 matrix, the Jacobians of lines 453 to 481 are part of it), the
  LDLT solve, the maximum norm, and the double arithmetic of lines 293, 446 and 447.
  \<open>selectedPoints\<close> is \<open>last_point - first_point\<close> after \<open>select\<close>;
  \<open>computeResidualsSse\<close> gives the two ranges of \<open>compute_residuals_result\<close>, the points
  with their errors (\<open>'e\<close>) and the residuals; \<open>computeWeightsSse\<close> maps the weight buffer
  to what the call leaves in it; \<open>computeScaleSse_inverse\<close> is \<open>computeScaleSse\<close> followed
  by \<open>inverse()\<close> (line 285). \<open>debug\<close> is the constant false of line 170, so the
  branches it guards are left out.
\<close>

record ('p, 'v, 'm, 'e) kernels =
  se3_exp :: "'v \<Rightarrow> 'p"
  se3_log :: "'p \<Rightarrow> 'v"
  se3_mul :: "'p \<Rightarrow> 'p \<Rightarrow> 'p"
  se3_inverse :: "'p \<Rightarrow> 'p"
  se3_identity :: 'p
  se3_of_affine :: "'p \<Rightarrow> 'p"
  affine_of_se3 :: "'p \<Rightarrow> 'p"
  affine_identity :: 'p
  getMaximumNumberOfPoints :: "int \<Rightarrow> nat"
  selectedPoints :: "int \<Rightarrow> nat"
  computeResidualsSse :: "int \<Rightarrow> 'p \<Rightarrow> 'e list \<times> Vector2f list"
  computeWeightsSse :: "Vector2f list \<Rightarrow> double list \<Rightarrow> Vector2f \<Rightarrow> Matrix2f \<Rightarrow> double list"
  computeScaleSse_inverse :: "Vector2f list \<Rightarrow> double list \<Rightarrow> Vector2f \<Rightarrow> Matrix2f"
  computeCompleteDataLogLikelihood ::
    "Vector2f list \<Rightarrow> double list \<Rightarrow> Vector2f \<Rightarrow> Matrix2f \<Rightarrow> double"
  squaredNorm :: "'v \<Rightarrow> double"
  dmul :: "double \<Rightarrow> double \<Rightarrow> double"
  dadd :: "double \<Rightarrow> double \<Rightarrow> double"
  normalEquations :: "'e list \<Rightarrow> double list \<Rightarrow> Matrix2f \<Rightarrow> double \<Rightarrow> 'v \<Rightarrow> 'm \<times> 'v"
  ldlt_solve :: "'m \<Rightarrow> 'v \<Rightarrow> 'v"
  lpNormInf :: "'v \<Rightarrow> double"
  scaleMatrix :: "'m \<Rightarrow> double \<Rightarrow> 'm"

section \<open>The variables of match\<close>

text \<open>
  The iteration context \<open>itctx_\<close> (\<open>Level\<close>, \<open>Iteration\<close>, \<open>Error\<close>, \<open>LastError\<close>) and the
  weight buffer are members of the tracker and keep what an earlier call left; the
  other fields are locals of \<open>match\<close>. \<open>x_inc\<close> is the local \<open>x\<close> and \<open>level_stats\<close> the
  reference to the last element of \<open>result.Statistics.Levels\<close>; both belong to one
  pass of the level loop, which overwrites them (lines 203 and 239) before it reads
  them. \<open>points_error\<close> and \<open>residuals\<close> are the ranges of \<open>compute_residuals_result\<close>.
\<close>

record ('p, 'v, 'm, 'e) vars =
  Level :: int
  Iteration :: int
  Error :: double
  LastError :: double
  weights :: "double list"
  points_error :: "'e list"
  residuals :: "Vector2f list"
  inc :: 'p
  x_inc :: 'v
  initial :: "'p Revertable"
  estimate :: "'p Revertable"
  accept :: bool
  mean :: Vector2f
  precision :: Matrix2f
  level_stats :: "('v, 'm) LevelStats"
  result :: "('p, 'v, 'm) Result"

text \<open>
  Modelled from the spec: the two queries of \<open>IterationContext\<close> (declared in
  dvo/dense_tracking.h, defined outside this file). The count of a level starts at 0,
  so the first iteration is the one with \<open>Iteration = 0\<close>, and the budget is used up
  when \<open>Iteration \<ge> MaxIterationsPerLevel\<close>.
\<close>

definition IsFirstIterationOnLevel :: "('p, 'v, 'm, 'e) vars \<Rightarrow> bool" where
  "IsFirstIterationOnLevel s = (Iteration s = 0)"

definition IterationsExceeded_ctx :: "Config \<Rightarrow> ('p, 'v, 'm, 'e) vars \<Rightarrow> bool" where
  "IterationsExceeded_ctx cfg s = (Iteration s \<ge> MaxIterationsPerLevel cfg)"

section \<open>One iteration\<close>

text \<open>Lines 260 to 262: the increment is applied to both poses.\<close>

definition stage_increment ::
  "('p, 'v, 'm, 'e) kernels \<Rightarrow> ('p, 'v, 'm, 'e) vars \<Rightarrow> ('p, 'v, 'm, 'e) vars" where
  "stage_increment k s =
     (let i = se3_exp k (x_inc s) in
      s\<lparr>inc := i,
        initial := update (initial s) (se3_mul k (se3_inverse k i) (current (initial s))),
        estimate := update (estimate s) (se3_mul k i (current (estimate s)))\<rparr>)"

text \<open>
  \<open>std::fill(weights.begin(), weights.begin() + n, 1.0f)\<close>. The buffer was sized at
  lines 165 and 166 to the largest point count of the last level. Where \<open>n\<close> is within
  the buffer the model is the source; where \<open>n\<close> exceeds it the source writes past the
  end, which is undefined, and the model stops at the end. The concrete runs below keep
  \<open>n\<close> within the buffer.
\<close>

definition fill_n :: "'a list \<Rightarrow> nat \<Rightarrow> 'a \<Rightarrow> 'a list" where
  "fill_n ws n v = replicate (min n (length ws)) v @ drop n ws"

text \<open>
  Lines 264 to 295 and 379 to 385: residuals at the trial pose, weights (all 1 on the
  first iteration of the level), precision, likelihood, the record of the iteration,
  and the acceptance test against the error of the iteration before.
\<close>

definition evaluate_error ::
  "('p, 'v, 'm, 'e) kernels \<Rightarrow> Config \<Rightarrow> ('p, 'v, 'm, 'e) vars \<Rightarrow> ('p, 'v, 'm, 'e) vars" where
  "evaluate_error k cfg s =
     (let (pe, res) = computeResidualsSse k (Level s) (current (estimate s));
          n = length res;
          w = (if IsFirstIterationOnLevel s then fill_n (weights s) n (Num 1)
               else computeWeightsSse k res (weights s) (mean s) (precision s));
          prec = computeScaleSse_inverse k res w (mean s);
          ll = computeCompleteDataLogLikelihood k res w (mean s) prec;
          iteration_stats =
            \<lparr>Id = Iteration s, ValidConstraints = n,
             TDistributionLogLikelihood = dneg ll,
             TDistributionMean = mean s,
             TDistributionPrecision = prec,
             PriorLogLikelihood =
               dmul k (Mu cfg) (squaredNorm k (se3_log k (current (initial s)))),
             EstimateIncrement = None, EstimateInformation = None\<rparr>;
          total_error = dneg ll
      in s\<lparr>points_error := pe, residuals := res, weights := w, precision := prec,
           level_stats := (level_stats s)
             \<lparr>Iterations := Iterations (level_stats s) @ [iteration_stats]\<rparr>,
           LastError := Error s, Error := total_error,
           accept := dless total_error (Error s)\<rparr>)"

text \<open>Lines 387 to 393: the rejected trial is taken back; \<open>break\<close> follows.\<close>

definition reject_increment :: "('p, 'v, 'm, 'e) vars \<Rightarrow> ('p, 'v, 'm, 'e) vars" where
  "reject_increment s = s\<lparr>initial := revert (initial s), estimate := revert (estimate s)\<rparr>"

text \<open>
  Lines 398 to 425: the system is built and solved, the increment and the matrix go
  into the record of this iteration (the last of the list), the count goes up.
\<close>

definition set_last :: "'a list \<Rightarrow> ('a \<Rightarrow> 'a) \<Rightarrow> 'a list" where
  "set_last xs f = (if xs = [] then [] else butlast xs @ [f (last xs)])"

definition solve_increment ::
  "('p, 'v, 'm, 'e) kernels \<Rightarrow> Config \<Rightarrow> ('p, 'v, 'm, 'e) vars \<Rightarrow> ('p, 'v, 'm, 'e) vars" where
  "solve_increment k cfg s =
     (let (A, b) = normalEquations k (points_error s) (weights s) (precision s) (Mu cfg)
                     (se3_log k (current (initial s)));
          x = ldlt_solve k A b
      in s\<lparr>x_inc := x,
           level_stats := (level_stats s)
             \<lparr>Iterations := set_last (Iterations (level_stats s))
                (\<lambda>it. it\<lparr>EstimateIncrement := Some x, EstimateInformation := Some A\<rparr>)\<rparr>,
           Iteration := Iteration s + 1\<rparr>)"

definition iteration_body ::
  "('p, 'v, 'm, 'e) kernels \<Rightarrow> Config \<Rightarrow> ('p, 'v, 'm, 'e) vars \<Rightarrow> ('p, 'v, 'm, 'e) vars" where
  "iteration_body k cfg s =
     (let s1 = evaluate_error k cfg (stage_increment k s)
      in if \<not> accept s1 then reject_increment s1 else solve_increment k cfg s1)"

text \<open>
  The test of line 428. After a \<open>break\<close> the source does not evaluate it; \<open>accept\<close> is
  false then, so the test is false as well and the loop below ends in the same state.
\<close>

definition continue_loop ::
  "('p, 'v, 'm, 'e) kernels \<Rightarrow> Config \<Rightarrow> ('p, 'v, 'm, 'e) vars \<Rightarrow> bool" where
  "continue_loop k cfg s =
     (accept s \<and> dless (Precision cfg) (lpNormInf k (x_inc s))
      \<and> \<not> IterationsExceeded_ctx cfg s)"

lemma Iteration_after_body:
  "Iteration (iteration_body k cfg s) =
     (if accept (iteration_body k cfg s) then Iteration s + 1 else Iteration s)"
  by (simp add: iteration_body_def Let_def reject_increment_def solve_increment_def
      evaluate_error_def stage_increment_def split: prod.splits)

function inner_loop ::
  "('p, 'v, 'm, 'e) kernels \<Rightarrow> Config \<Rightarrow> ('p, 'v, 'm, 'e) vars \<Rightarrow> ('p, 'v, 'm, 'e) vars" where
  "inner_loop k cfg s =
     (let s' = iteration_body k cfg s
      in if continue_loop k cfg s' then inner_loop k cfg s' else s')"
  by pat_completeness auto
termination
proof (relation "measure (\<lambda>(k, cfg, s). nat (MaxIterationsPerLevel cfg - Iteration s))")
  show "wf (measure (\<lambda>(k, cfg, s). nat (MaxIterationsPerLevel cfg - Iteration s)))"
    by simp
next
  fix k :: "('p, 'v, 'm, 'e) kernels" and cfg :: Config
    and s s' :: "('p, 'v, 'm, 'e) vars"
  assume b: "s' = iteration_body k cfg s" and c: "continue_loop k cfg s'"
  from c have "accept s'" and lt: "Iteration s' < MaxIterationsPerLevel cfg"
    by (simp_all add: continue_loop_def IterationsExceeded_ctx_def)
  with b have "Iteration s' = Iteration s + 1"
    using Iteration_after_body [of k cfg s] by simp
  with lt show "((k, cfg, s'), (k, cfg, s))
      \<in> measure (\<lambda>(k, cfg, s). nat (MaxIterationsPerLevel cfg - Iteration s))"
    by simp
qed

declare inner_loop.simps [simp del]

section \<open>One pyramid level\<close>

text \<open>
  Lines 203 to 244, with \<open>Level\<close> already set by the \<open>for\<close> statement: a fresh
  \<open>LevelStats\<close>, mean and precision zeroed, the iteration context reset, and \<open>x\<close> seeded
  with the logarithm of \<open>inc\<close>.
\<close>

definition level_start ::
  "('p, 'v, 'm, 'e) kernels \<Rightarrow> Config \<Rightarrow> ('p, 'v, 'm, 'e) vars \<Rightarrow> ('p, 'v, 'm, 'e) vars" where
  "level_start k cfg s =
     s\<lparr>level_stats :=
         \<lparr>LevelId = Level s,
          MaxValidPixels = getMaximumNumberOfPoints k (Level s),
          ValidPixels = selectedPoints k (Level s),
          Iterations = [], TerminationCriterion = None\<rparr>,
       mean := Vector2f_Zero,
       precision := Matrix2f_Zero,
       Iteration := 0,
       Error := DBL_MAX,
       x_inc := se3_log k (inc s)\<rparr>"

text \<open>Lines 430 to 437: three tests in a row, each assignment replacing the one before.\<close>

definition record_termination ::
  "('p, 'v, 'm, 'e) kernels \<Rightarrow> Config \<Rightarrow> ('p, 'v, 'm, 'e) vars \<Rightarrow> ('p, 'v, 'm, 'e) vars" where
  "record_termination k cfg s =
     (let l0 = level_stats s;
          l1 = (if \<not> accept s
                then l0\<lparr>TerminationCriterion := Some LogLikelihoodDecreased\<rparr> else l0);
          l2 = (if dle (lpNormInf k (x_inc s)) (Precision cfg)
                then l1\<lparr>TerminationCriterion := Some IncrementTooSmall\<rparr> else l1);
          l3 = (if IterationsExceeded_ctx cfg s
                then l2\<lparr>TerminationCriterion := Some IterationsExceeded\<rparr> else l2)
      in s\<lparr>level_stats := l3\<rparr>)"

text \<open>
  The body of the level loop. The source appends the \<open>LevelStats\<close> at line 203 and
  fills it through a reference; the model appends it once it is complete.
\<close>

definition run_level ::
  "('p, 'v, 'm, 'e) kernels \<Rightarrow> Config \<Rightarrow> ('p, 'v, 'm, 'e) vars \<Rightarrow> ('p, 'v, 'm, 'e) vars" where
  "run_level k cfg s =
     (let s1 = record_termination k cfg (inner_loop k cfg (level_start k cfg s))
      in s1\<lparr>result := (result s1)\<lparr>Levels := Levels (result s1) @ [level_stats s1]\<rparr>\<rparr>)"

lemma Level_after_body: "Level (iteration_body k cfg s) = Level s"
  by (simp add: iteration_body_def Let_def reject_increment_def solve_increment_def
      evaluate_error_def stage_increment_def split: prod.splits)

lemma Level_after_inner_loop: "Level (inner_loop k cfg s) = Level s"
proof (induction k cfg s rule: inner_loop.induct)
  case (1 k cfg s)
  show ?case
  proof (cases "continue_loop k cfg (iteration_body k cfg s)")
    case True
    with "1.IH" [OF refl True] show ?thesis
      by (subst inner_loop.simps) (simp add: Level_after_body)
  next
    case False
    then show ?thesis
      by (subst inner_loop.simps) (simp add: Level_after_body)
  qed
qed

lemma Level_after_run_level: "Level (run_level k cfg s) = Level s"
  by (simp add: run_level_def Let_def record_termination_def Level_after_inner_loop
      level_start_def)

text \<open>Line 201: \<open>for(itctx_.Level = cfg.FirstLevel; itctx_.Level >= cfg.LastLevel; --itctx_.Level)\<close>.\<close>

definition next_level ::
  "('p, 'v, 'm, 'e) kernels \<Rightarrow> Config \<Rightarrow> ('p, 'v, 'm, 'e) vars \<Rightarrow> ('p, 'v, 'm, 'e) vars" where
  \<comment> \<open>one pass of the loop body followed by \<open>--itctx_.Level\<close>\<close>
  "next_level k cfg s = (let s' = run_level k cfg s in s'\<lparr>Level := Level s' - 1\<rparr>)"

function level_loop ::
  "('p, 'v, 'm, 'e) kernels \<Rightarrow> Config \<Rightarrow> ('p, 'v, 'm, 'e) vars \<Rightarrow> ('p, 'v, 'm, 'e) vars" where
  "level_loop k cfg s =
     (if Level s \<ge> LastLevel cfg then level_loop k cfg (next_level k cfg s) else s)"
  by pat_completeness auto
termination
  by (relation "measure (\<lambda>(k, cfg, s). nat (Level s - LastLevel cfg + 1))")
    (simp_all add: next_level_def Let_def Level_after_run_level)

declare level_loop.simps [simp del]

section \<open>match\<close>

text \<open>
  What the tracker object holds when \<open>match\<close> is entered: the iteration context and the
  weight buffer as the call before left them.
\<close>

record Tracker =
  itctx_Level :: int
  itctx_Iteration :: int
  itctx_Error :: double
  itctx_LastError :: double
  weights_member :: "double list"

definition resize_at_least :: "'a list \<Rightarrow> nat \<Rightarrow> 'a \<Rightarrow> 'a list" where
  \<comment> \<open>\<open>if(v.size() < n) v.resize(n)\<close>\<close>
  "resize_at_least xs n v = (if length xs < n then xs @ replicate (n - length xs) v else xs)"

text \<open>
  Lines 138 to 199 and the initialiser of the \<open>for\<close> statement. The guess is replaced by
  the identity unless \<open>UseInitialEstimate\<close> is set; \<open>inc\<close> and \<open>initial\<close> start as the
  guess, \<open>estimate\<close> as the identity, \<open>accept\<close> as true.
\<close>

definition match_init ::
  "('p, 'v, 'm, 'e) kernels \<Rightarrow> Config \<Rightarrow> Tracker \<Rightarrow> ('p, 'v, 'm) Result
     \<Rightarrow> ('p, 'v, 'm, 'e) vars" where
  "match_init k cfg t r =
     (let T0 = (if \<not> UseInitialEstimate cfg then affine_identity k else Transformation r);
          i = se3_of_affine k T0
      in \<lparr>Level = FirstLevel cfg,
          Iteration = itctx_Iteration t,
          Error = itctx_Error t,
          LastError = itctx_LastError t,
          weights = resize_at_least (weights_member t)
                      (getMaximumNumberOfPoints k (LastLevel cfg)) (Num 0),
          points_error = [], residuals = [],
          inc = i, x_inc = se3_log k i,
          initial = Revertable_of i,
          estimate = Revertable_of (se3_identity k),
          accept = True,
          mean = Vector2f_Zero,
          precision = Matrix2f_Zero,
          level_stats = \<lparr>LevelId = FirstLevel cfg, MaxValidPixels = 0, ValidPixels = 0,
                         Iterations = [], TerminationCriterion = None\<rparr>,
          result = r\<lparr>Transformation := T0\<rparr>\<rparr>)"

text \<open>
  Lines 442 and 443 read \<open>Levels.back()\<close> and \<open>Iterations[size() - 1]\<close> or
  \<open>Iterations[size() - 2]\<close>. The index is a \<open>size_t\<close>: when the list is shorter than the
  offset the subtraction wraps to an index past the end. Both reads are undefined
  behaviour then, which the model returns as an error.
\<close>

datatype error = BackOfEmptyVector | IndexOutOfRange

definition from_back :: "'a list \<Rightarrow> nat \<Rightarrow> error + 'a" where
  "from_back xs j =
     (if 0 < j \<and> j \<le> length xs then Inr (xs ! (length xs - j)) else Inl IndexOutOfRange)"

definition information_scale :: double where
  \<comment> \<open>the literal \<open>0.008\<close> of line 446: the double next to it, \<open>1152921504606847 / 2 ^ 57\<close>\<close>
  "information_scale = Num (1152921504606847 / 144115188075855872)"

text \<open>Lines 442 to 447.\<close>

definition assemble_result ::
  "('p, 'v, 'm, 'e) kernels \<Rightarrow> ('p, 'v, 'm, 'e) vars \<Rightarrow> error + ('p, 'v, 'm) Result" where
  "assemble_result k s =
     (if Levels (result s) = [] then Inl BackOfEmptyVector
      else
        let last_level = last (Levels (result s)) in
        case from_back (Iterations last_level)
               (if TerminationCriterion last_level \<noteq> Some LogLikelihoodDecreased
                then 1 else 2) of
          Inl e \<Rightarrow> Inl e
        | Inr last_iteration \<Rightarrow>
            Inr ((result s)
              \<lparr>Transformation := affine_of_se3 k (se3_inverse k (current (estimate s))),
               Information :=
                 map_option
                   (\<lambda>A. scaleMatrix k (scaleMatrix k A information_scale) information_scale)
                   (EstimateInformation last_iteration),
               LogLikelihood :=
                 dadd k (TDistributionLogLikelihood last_iteration)
                        (PriorLogLikelihood last_iteration)\<rparr>))"

text \<open>
  \<open>bool DenseTracker::match(PointSelection&, RgbdImagePyramid&, Result&)\<close>, lines 136 to
  450. The flag is set at line 140 and returned at line 449.
\<close>

definition match ::
  "('p, 'v, 'm, 'e) kernels \<Rightarrow> Config \<Rightarrow> Tracker \<Rightarrow> ('p, 'v, 'm) Result
     \<Rightarrow> error + bool \<times> ('p, 'v, 'm) Result" where
  "match k cfg t r =
     (let success = True in
      case assemble_result k (level_loop k cfg (match_init k cfg t r)) of
        Inl e \<Rightarrow> Inl e
      | Inr r' \<Rightarrow> Inr (success, r'))"

text \<open>
  \<open>bool DenseTracker::match(PointSelection&, RgbdImagePyramid&, Eigen::Affine3d&)\<close>, lines
  116 to 126, which starts from a fresh \<open>Result\<close>.
\<close>

definition match_transformation ::
  "('p, 'v, 'm, 'e) kernels \<Rightarrow> Config \<Rightarrow> Tracker \<Rightarrow> 'p \<Rightarrow> double \<Rightarrow> error + bool \<times> 'p" where
  "match_transformation k cfg t transformation ll0 =
     (case match k cfg t
        \<lparr>Transformation = transformation, Information = None, LogLikelihood = ll0,
         Levels = []\<rparr> of
        Inl e \<Rightarrow> Inl e
      | Inr (success, r) \<Rightarrow> Inr (success, Transformation r))"

section \<open>Reading the statistics\<close>

text \<open>
  Lines 422 and 423 are reached on an accepted iteration only (a rejected one leaves
  the loop at line 392), so the records that carry an increment are the records of the
  accepted iterations.
\<close>

definition accepted_iterations :: "('v, 'm) LevelStats \<Rightarrow> ('v, 'm) IterationStats list" where
  "accepted_iterations l = filter (\<lambda>it. EstimateIncrement it \<noteq> None) (Iterations l)"

definition recorded_errors :: "('v, 'm) IterationStats list \<Rightarrow> double list" where
  "recorded_errors its = map TDistributionLogLikelihood its"

definition strictly_decreasing :: "double list \<Rightarrow> bool" where
  "strictly_decreasing es = successively (\<lambda>a b. dless b a) es"

section \<open>Concrete collaborators\<close>

text \<open>
  A one-dimensional stand-in for the collaborators, used to run \<open>match\<close> on concrete
  inputs: a pose is a real number (composition is addition), a tangent vector is a
  scalar, the matrix is a single entry. \<open>n\<close> gives the number of valid points of a
  level, \<open>ll\<close> the log-likelihood at a trial pose (not a number when no point is
  valid), \<open>sys\<close> the system \<open>(A, b)\<close> at a trial pose; the solve of a singular \<open>A\<close> is
  not a number.
\<close>

definition toy ::
  "(int \<Rightarrow> nat) \<Rightarrow> (real \<Rightarrow> double) \<Rightarrow> (real \<Rightarrow> real \<times> double)
     \<Rightarrow> (real, double, real, real) kernels" where
  "toy n ll sys =
     \<lparr>se3_exp = (\<lambda>v. case v of Num r \<Rightarrow> r | _ \<Rightarrow> 0),
      se3_log = Num, se3_mul = (+), se3_inverse = uminus, se3_identity = 0,
      se3_of_affine = (\<lambda>p. p), affine_of_se3 = (\<lambda>p. p), affine_identity = 0,
      getMaximumNumberOfPoints = n, selectedPoints = n,
      computeResidualsSse = (\<lambda>l p. (replicate (n l) p, replicate (n l) [Num p, Num 0])),
      computeWeightsSse = (\<lambda>res w m pr. w),
      computeScaleSse_inverse = (\<lambda>res w m. [Num 1, Num 0] # [Num 0, Num 1] # []),
      computeCompleteDataLogLikelihood =
        (\<lambda>res w m pr. case res of [] \<Rightarrow> NaN
           | r # _ \<Rightarrow> (case r of Num p # _ \<Rightarrow> ll p | _ \<Rightarrow> NaN)),
      squaredNorm = (\<lambda>v. case v of Num r \<Rightarrow> Num (r * r) | _ \<Rightarrow> NaN),
      dmul = (\<lambda>a b. case a of Num u \<Rightarrow> (case b of Num v \<Rightarrow> Num (u * v) | _ \<Rightarrow> NaN)
                | _ \<Rightarrow> NaN),
      dadd = (\<lambda>a b. case a of Num u \<Rightarrow> (case b of Num v \<Rightarrow> Num (u + v) | _ \<Rightarrow> NaN)
                | _ \<Rightarrow> NaN),
      normalEquations = (\<lambda>pe w pr mu l. case pe of [] \<Rightarrow> (0, Num 0) | p # _ \<Rightarrow> sys p),
      ldlt_solve = (\<lambda>A b. if A = 0 then NaN else b),
      lpNormInf = (\<lambda>v. case v of Num r \<Rightarrow> Num \<bar>r\<bar> | NaN \<Rightarrow> NaN | _ \<Rightarrow> PosInf),
      scaleMatrix = (\<lambda>A c. case c of Num r \<Rightarrow> A * r | _ \<Rightarrow> A)\<rparr>"

definition tracker0 :: Tracker where
  "tracker0 = \<lparr>itctx_Level = 0, itctx_Iteration = 0, itctx_Error = Num 0,
               itctx_LastError = Num 0, weights_member = []\<rparr>"

definition result0 :: "real \<Rightarrow> (real, double, real) Result" where
  "result0 guess = \<lparr>Transformation = guess, Information = None, LogLikelihood = Num 0,
                    Levels = []\<rparr>"

text \<open>
  One level, one valid point, the error \<open>|p - 3|\<close> at pose \<open>p\<close>, every solve giving the
  increment 1: from the identity the errors are 3, 2, 1, 0 and then 1 again.
\<close>

definition cfg_single :: Config where
  "cfg_single = \<lparr>FirstLevel = 0, LastLevel = 0, MaxIterationsPerLevel = 10,
                 Precision = Num (1 / 2), Mu = Num 0, UseInitialEstimate = False\<rparr>"

definition k_descent :: "(real, double, real, real) kernels" where
  "k_descent = toy (\<lambda>l. 1) (\<lambda>p. Num (- \<bar>p - 3\<bar>)) (\<lambda>p. (1, Num 1))"

text \<open>No valid point at any level.\<close>

definition k_empty :: "(real, double, real, real) kernels" where
  "k_empty = toy (\<lambda>l. 0) (\<lambda>p. Num 0) (\<lambda>p. (1, Num 1))"

text \<open>
  One valid point, the error 0 at every pose, every solve giving the increment 0: the
  first iteration is accepted and its increment is below any positive precision.
\<close>

definition k_converged :: "(real, double, real, real) kernels" where
  "k_converged = toy (\<lambda>l. 1) (\<lambda>p. Num 0) (\<lambda>p. (1, Num 0))"

text \<open>As \<open>k_descent\<close>, with a singular system at every pose.\<close>

definition k_singular :: "(real, double, real, real) kernels" where
  "k_singular = toy (\<lambda>l. 1) (\<lambda>p. Num (- \<bar>p - 3\<bar>)) (\<lambda>p. (0, Num 0))"

text \<open>Two valid points at every level.\<close>

definition k_two_points :: "(real, double, real, real) kernels" where
  "k_two_points = toy (\<lambda>l. 2) (\<lambda>p. Num (- \<bar>p - 3\<bar>)) (\<lambda>p. (1, Num 1))"

definition cfg_one_iteration :: Config where
  "cfg_one_iteration = cfg_single\<lparr>MaxIterationsPerLevel := 1\<rparr>"

definition cfg_no_budget :: Config where
  "cfg_no_budget = cfg_single\<lparr>MaxIterationsPerLevel := 0\<rparr>"

text \<open>A tracker whose weight buffer holds three weights of an earlier call.\<close>

definition tracker_used :: Tracker where
  "tracker_used = tracker0\<lparr>weights_member := [Num 7, Num 7, Num 7]\<rparr>"

text \<open>
  Two levels. \<open>k_lost\<close> has a valid point at level 1 and none at level 0, the last
  level, and reports room for one point at either level, so the buffers hold the point
  of level 1. \<open>k_overshoot\<close> has the error \<open>|p - 1|\<close> and solves to the increment 1
  below pose 1 and to 5 from there on.
\<close>

definition cfg_two_levels :: Config where
  "cfg_two_levels = cfg_single\<lparr>FirstLevel := 1\<rparr>"

definition cfg_wide :: Config where
  "cfg_wide = cfg_two_levels\<lparr>Precision := Num 10, UseInitialEstimate := True\<rparr>"

definition k_lost :: "(real, double, real, real) kernels" where
  "k_lost = (toy (\<lambda>l. if l = 0 then 0 else 1) (\<lambda>p. Num (- \<bar>p - 3\<bar>)) (\<lambda>p. (1, Num 1)))
     \<lparr>getMaximumNumberOfPoints := (\<lambda>l. 1)\<rparr>"

definition k_overshoot :: "(real, double, real, real) kernels" where
  "k_overshoot = toy (\<lambda>l. 1) (\<lambda>p. Num (- \<bar>p - 1\<bar>))
     (\<lambda>p. (1, Num (if p < 1 then 1 else 5)))"

section \<open>Facts about one iteration\<close>

lemmas body_defs =
  iteration_body_def Let_def reject_increment_def solve_increment_def
  evaluate_error_def stage_increment_def

lemma result_after_body: "result (iteration_body k cfg s) = result s"
  by (simp add: body_defs split: prod.splits)

lemma LastError_after_body: "LastError (iteration_body k cfg s) = Error s"
  by (simp add: body_defs split: prod.splits)

lemma accept_after_body:
  "accept (iteration_body k cfg s) = dless (Error (iteration_body k cfg s)) (Error s)"
  by (simp add: body_defs split: prod.splits)

lemma inc_after_body: "inc (iteration_body k cfg s) = se3_exp k (x_inc s)"
  by (simp add: body_defs split: prod.splits)

lemma estimate_after_body:
  "current (estimate (iteration_body k cfg s)) =
     (if accept (iteration_body k cfg s)
      then se3_mul k (se3_exp k (x_inc s)) (current (estimate s))
      else current (estimate s))"
  by (simp add: body_defs update_def revert_def split: prod.splits)

lemma initial_after_body:
  "current (initial (iteration_body k cfg s)) =
     (if accept (iteration_body k cfg s)
      then se3_mul k (se3_inverse k (se3_exp k (x_inc s))) (current (initial s))
      else current (initial s))"
  by (simp add: body_defs update_def revert_def split: prod.splits)

lemma x_inc_after_rejection:
  "\<not> accept (iteration_body k cfg s) \<Longrightarrow> x_inc (iteration_body k cfg s) = x_inc s"
  by (simp add: body_defs split: prod.splits if_splits)

lemma set_last_snoc: "set_last (xs @ [y]) f = xs @ [f y]"
  by (simp add: set_last_def)

lemma Iterations_after_body:
  "\<exists>it. Iterations (level_stats (iteration_body k cfg s)) = Iterations (level_stats s) @ [it]
     \<and> Id it = Iteration s
     \<and> TDistributionLogLikelihood it = Error (iteration_body k cfg s)
     \<and> (EstimateIncrement it \<noteq> None) = accept (iteration_body k cfg s)
     \<and> (EstimateInformation it \<noteq> None) = accept (iteration_body k cfg s)"
  by (simp add: body_defs set_last_snoc split: prod.splits)

lemma length_Iterations_after_body:
  "length (Iterations (level_stats (iteration_body k cfg s))) =
     Suc (length (Iterations (level_stats s)))"
  using Iterations_after_body [of k cfg s] by auto

section \<open>Facts about the inner loop\<close>

lemma inner_loop_stop:
  "\<not> continue_loop k cfg (iteration_body k cfg s) \<Longrightarrow>
     inner_loop k cfg s = iteration_body k cfg s"
  by (subst inner_loop.simps) simp

lemma inner_loop_continue:
  "continue_loop k cfg (iteration_body k cfg s) \<Longrightarrow>
     inner_loop k cfg s = inner_loop k cfg (iteration_body k cfg s)"
  by (subst inner_loop.simps) simp

lemma inner_loop_rule:
  assumes start: "I s"
    and step: "\<And>t. I t \<Longrightarrow> continue_loop k cfg (iteration_body k cfg t)
                 \<Longrightarrow> I (iteration_body k cfg t)"
    and stop: "\<And>t. I t \<Longrightarrow> \<not> continue_loop k cfg (iteration_body k cfg t)
                 \<Longrightarrow> Q (iteration_body k cfg t)"
  shows "Q (inner_loop k cfg s)"
  using assms
proof (induction k cfg s rule: inner_loop.induct)
  case (1 k cfg s)
  let ?s' = "iteration_body k cfg s"
  show ?case
  proof (cases "continue_loop k cfg ?s'")
    case True
    have "I ?s'"
      using "1.prems"(1) True by (rule "1.prems"(2))
    then have "Q (inner_loop k cfg ?s')"
      using "1.prems"(2,3) by (rule "1.IH" [OF refl True])
    then show ?thesis
      by (simp add: inner_loop_continue [OF True])
  next
    case False
    have "Q ?s'"
      using "1.prems"(1) False by (rule "1.prems"(3))
    then show ?thesis
      by (simp add: inner_loop_stop [OF False])
  qed
qed

lemma Iterations_after_record_termination:
  "Iterations (level_stats (record_termination k cfg s)) = Iterations (level_stats s)"
  by (simp add: record_termination_def Let_def)

lemma result_after_inner_loop: "result (inner_loop k cfg s) = result s"
  by (rule inner_loop_rule [where I = "\<lambda>t. result t = result s"])
    (simp_all add: result_after_body)

lemma level_stats_after_run_level:
  "level_stats (run_level k cfg s) =
     level_stats (record_termination k cfg (inner_loop k cfg (level_start k cfg s)))"
  by (simp add: run_level_def Let_def)

lemma Levels_after_run_level:
  "Levels (result (run_level k cfg s)) = Levels (result s) @ [level_stats (run_level k cfg s)]"
  by (simp add: run_level_def Let_def record_termination_def result_after_inner_loop
      level_start_def)

lemma Level_after_next_level: "Level (next_level k cfg s) = Level s - 1"
  by (simp add: next_level_def Let_def Level_after_run_level)

lemma Levels_after_next_level:
  "Levels (result (next_level k cfg s)) = Levels (result s) @ [level_stats (run_level k cfg s)]"
  by (simp add: next_level_def Let_def Levels_after_run_level)

lemma level_stats_after_next_level:
  "level_stats (next_level k cfg s) = level_stats (run_level k cfg s)"
  by (simp add: next_level_def Let_def)

lemma level_loop_stop: "\<not> LastLevel cfg \<le> Level s \<Longrightarrow> level_loop k cfg s = s"
  by (subst level_loop.simps) simp

lemma level_loop_continue:
  "LastLevel cfg \<le> Level s \<Longrightarrow> level_loop k cfg s = level_loop k cfg (next_level k cfg s)"
  by (subst level_loop.simps) simp

text \<open>
  The rule for the level loop: an invariant \<open>I\<close> of the variables that every pass keeps,
  and a property \<open>P\<close> of the statistics of a pass started under \<open>I\<close>. The loop ends
  under \<open>I\<close>, and it has appended a list of statistics that all have \<open>P\<close>.
\<close>

lemma level_loop_rule:
  assumes start: "I s"
    and step: "\<And>t. I t \<Longrightarrow> LastLevel cfg \<le> Level t \<Longrightarrow> I (next_level k cfg t)"
    and stats: "\<And>t. I t \<Longrightarrow> LastLevel cfg \<le> Level t \<Longrightarrow> P (level_stats (run_level k cfg t))"
  shows "I (level_loop k cfg s)
     \<and> (\<exists>ls. Levels (result (level_loop k cfg s)) = Levels (result s) @ ls
           \<and> (\<forall>l \<in> set ls. P l))"
  using assms
proof (induction k cfg s rule: level_loop.induct)
  case (1 k cfg s)
  show ?case
  proof (cases "LastLevel cfg \<le> Level s")
    case True
    let ?s' = "next_level k cfg s"
    have "I ?s'"
      using "1.prems"(1) True by (rule "1.prems"(2))
    then have "I (level_loop k cfg ?s')
       \<and> (\<exists>ls. Levels (result (level_loop k cfg ?s')) = Levels (result ?s') @ ls
             \<and> (\<forall>l \<in> set ls. P l))"
      using "1.prems"(2,3) by (rule "1.IH" [OF True])
    then obtain ls where ls: "I (level_loop k cfg ?s')"
      "Levels (result (level_loop k cfg ?s')) = Levels (result ?s') @ ls"
      "\<forall>l \<in> set ls. P l"
      by blast
    have here: "P (level_stats (run_level k cfg s))"
      using "1.prems"(1) True by (rule "1.prems"(3))
    have "Levels (result (level_loop k cfg s)) =
        Levels (result s) @ (level_stats (run_level k cfg s) # ls)"
      using ls(2) by (simp add: level_loop_continue [OF True] Levels_after_next_level)
    moreover have "\<forall>l \<in> set (level_stats (run_level k cfg s) # ls). P l"
      using ls(3) here by simp
    ultimately show ?thesis
      using ls(1) by (metis level_loop_continue [OF True])
  next
    case False
    then show ?thesis
      using "1.prems"(1) by (simp add: level_loop_stop)
  qed
qed

text \<open>
  When the loop runs at all, it ends right after a pass, and that pass started under
  the invariant.
\<close>

lemma level_loop_last:
  assumes start: "I s"
    and step: "\<And>t. I t \<Longrightarrow> LastLevel cfg \<le> Level t \<Longrightarrow> I (next_level k cfg t)"
    and runs: "LastLevel cfg \<le> Level s"
  shows "\<exists>t. I t \<and> LastLevel cfg \<le> Level t \<and> level_loop k cfg s = next_level k cfg t"
  using assms
proof (induction k cfg s rule: level_loop.induct)
  case (1 k cfg s)
  let ?s' = "next_level k cfg s"
  have eq: "level_loop k cfg s = level_loop k cfg ?s'"
    using "1.prems"(3) by (rule level_loop_continue)
  show ?case
  proof (cases "LastLevel cfg \<le> Level ?s'")
    case True
    have "I ?s'"
      using "1.prems"(1,3) by (rule "1.prems"(2))
    then have "\<exists>t. I t \<and> LastLevel cfg \<le> Level t \<and> level_loop k cfg ?s' = next_level k cfg t"
      using "1.prems"(2) True by (rule "1.IH" [OF "1.prems"(3)])
    then show ?thesis
      by (simp add: eq)
  next
    case False
    then have "level_loop k cfg ?s' = ?s'"
      by (rule level_loop_stop)
    then show ?thesis
      using "1.prems"(1,3) eq by auto
  qed
qed

lemma errors_invariant_accept:
  assumes inv: "\<forall>it \<in> set (Iterations (level_stats t)). EstimateIncrement it \<noteq> None"
      "strictly_decreasing (DBL_MAX # recorded_errors (Iterations (level_stats t)))"
      "Error t = last (DBL_MAX # recorded_errors (Iterations (level_stats t)))"
    and acc: "accept (iteration_body k cfg t)"
  shows "(\<forall>it \<in> set (Iterations (level_stats (iteration_body k cfg t))).
            EstimateIncrement it \<noteq> None)
     \<and> strictly_decreasing
         (DBL_MAX # recorded_errors (Iterations (level_stats (iteration_body k cfg t))))
     \<and> Error (iteration_body k cfg t) =
         last (DBL_MAX # recorded_errors (Iterations (level_stats (iteration_body k cfg t))))"
proof -
  let ?t' = "iteration_body k cfg t"
  obtain it where it: "Iterations (level_stats ?t') = Iterations (level_stats t) @ [it]"
    "TDistributionLogLikelihood it = Error ?t'"
    "(EstimateIncrement it \<noteq> None) = accept ?t'"
    using Iterations_after_body [of k cfg t] by blast
  have less: "dless (Error ?t') (Error t)"
    using acc accept_after_body [of k cfg t] by simp
  let ?es = "recorded_errors (Iterations (level_stats t))"
  have snoc: "DBL_MAX # recorded_errors (Iterations (level_stats ?t')) =
      (DBL_MAX # ?es) @ [Error ?t']"
    by (simp add: it recorded_errors_def)
  have "strictly_decreasing ((DBL_MAX # ?es) @ [Error ?t'])"
    unfolding strictly_decreasing_def successively_append_iff
    using inv(2,3) less by (simp add: strictly_decreasing_def)
  moreover have "last ((DBL_MAX # ?es) @ [Error ?t']) = Error ?t'"
    by simp
  moreover have "\<forall>i \<in> set (Iterations (level_stats ?t')). EstimateIncrement i \<noteq> None"
    using inv(1) acc it by simp
  ultimately show ?thesis
    by (simp only: snoc simp_thms)
qed

lemma filter_all: "\<forall>x \<in> set xs. P x \<Longrightarrow> filter P xs = xs"
  by (induction xs) auto

lemma errors_invariant_stop:
  fixes t :: "('p, 'v, 'm, 'e) vars"
  assumes inv: "\<forall>it \<in> set (Iterations (level_stats t)). EstimateIncrement it \<noteq> None"
      "strictly_decreasing (DBL_MAX # recorded_errors (Iterations (level_stats t)))"
      "Error t = last (DBL_MAX # recorded_errors (Iterations (level_stats t)))"
  shows "strictly_decreasing
     (DBL_MAX # recorded_errors (accepted_iterations (level_stats (iteration_body k cfg t))))"
proof (cases "accept (iteration_body k cfg t)")
  case True
  from errors_invariant_accept [OF inv True] show ?thesis
    by (simp add: accepted_iterations_def filter_all)
next
  case False
  let ?t' = "iteration_body k cfg t"
  obtain it where it: "Iterations (level_stats ?t') = Iterations (level_stats t) @ [it]"
    "(EstimateIncrement it \<noteq> None) = accept ?t'"
    using Iterations_after_body [of k cfg t] by blast
  with False inv(1) have "accepted_iterations (level_stats ?t') = Iterations (level_stats t)"
    by (simp add: accepted_iterations_def filter_all)
  with inv(2) show ?thesis by simp
qed

lemma level_errors_decreasing:
  fixes k :: "('p, 'v, 'm, 'e) kernels"
  shows "strictly_decreasing (DBL_MAX # recorded_errors
     (accepted_iterations (level_stats (inner_loop k cfg (level_start k cfg s)))))"
proof (rule inner_loop_rule [where I = "\<lambda>t.
     (\<forall>it \<in> set (Iterations (level_stats t)). EstimateIncrement it \<noteq> None)
     \<and> strictly_decreasing (DBL_MAX # recorded_errors (Iterations (level_stats t)))
     \<and> Error t = last (DBL_MAX # recorded_errors (Iterations (level_stats t)))"])
  show "(\<forall>it \<in> set (Iterations (level_stats (level_start k cfg s))).
           EstimateIncrement it \<noteq> None)
     \<and> strictly_decreasing
         (DBL_MAX # recorded_errors (Iterations (level_stats (level_start k cfg s))))
     \<and> Error (level_start k cfg s) =
         last (DBL_MAX # recorded_errors (Iterations (level_stats (level_start k cfg s))))"
    by (simp add: level_start_def strictly_decreasing_def recorded_errors_def)
next
  fix t :: "('p, 'v, 'm, 'e) vars"
  assume "(\<forall>it \<in> set (Iterations (level_stats t)). EstimateIncrement it \<noteq> None)
     \<and> strictly_decreasing (DBL_MAX # recorded_errors (Iterations (level_stats t)))
     \<and> Error t = last (DBL_MAX # recorded_errors (Iterations (level_stats t)))"
    and "continue_loop k cfg (iteration_body k cfg t)"
  then show "(\<forall>it \<in> set (Iterations (level_stats (iteration_body k cfg t))).
            EstimateIncrement it \<noteq> None)
     \<and> strictly_decreasing
         (DBL_MAX # recorded_errors (Iterations (level_stats (iteration_body k cfg t))))
     \<and> Error (iteration_body k cfg t) =
         last (DBL_MAX # recorded_errors (Iterations (level_stats (iteration_body k cfg t))))"
    using errors_invariant_accept [of t k cfg] by (simp add: continue_loop_def)
next
  fix t :: "('p, 'v, 'm, 'e) vars"
  assume "(\<forall>it \<in> set (Iterations (level_stats t)). EstimateIncrement it \<noteq> None)
     \<and> strictly_decreasing (DBL_MAX # recorded_errors (Iterations (level_stats t)))
     \<and> Error t = last (DBL_MAX # recorded_errors (Iterations (level_stats t)))"
  then show "strictly_decreasing (DBL_MAX # recorded_errors
     (accepted_iterations (level_stats (iteration_body k cfg t))))"
    using errors_invariant_stop [of t k cfg] by simp
qed

lemma run_level_errors_decreasing:
  "strictly_decreasing (DBL_MAX # recorded_errors
     (accepted_iterations (level_stats (run_level k cfg s))))"
  using level_errors_decreasing [of k cfg s]
  by (simp add: level_stats_after_run_level accepted_iterations_def
      Iterations_after_record_termination)

section \<open>Facts about one level\<close>

lemma TerminationCriterion_after_body:
  "TerminationCriterion (level_stats (iteration_body k cfg s)) =
     TerminationCriterion (level_stats s)"
  by (simp add: body_defs split: prod.splits)

lemma TerminationCriterion_after_inner_loop:
  "TerminationCriterion (level_stats (inner_loop k cfg s)) =
     TerminationCriterion (level_stats s)"
  by (rule inner_loop_rule [where I = "\<lambda>t. TerminationCriterion (level_stats t) =
      TerminationCriterion (level_stats s)"])
    (simp_all add: TerminationCriterion_after_body)

text \<open>What lines 430 to 437 leave in the statistics, read off the state the loop ended in.\<close>

lemma recorded_reason:
  "TerminationCriterion (level_stats (run_level k cfg s)) =
     (if IterationsExceeded_ctx cfg (inner_loop k cfg (level_start k cfg s))
      then Some IterationsExceeded
      else if dle (lpNormInf k (x_inc (inner_loop k cfg (level_start k cfg s)))) (Precision cfg)
      then Some IncrementTooSmall
      else if \<not> accept (inner_loop k cfg (level_start k cfg s))
      then Some LogLikelihoodDecreased
      else None)"
proof -
  have "TerminationCriterion (level_stats (inner_loop k cfg (level_start k cfg s))) = None"
    by (simp add: TerminationCriterion_after_inner_loop level_start_def)
  then show ?thesis
    by (simp add: level_stats_after_run_level record_termination_def Let_def
        IterationsExceeded_ctx_def)
qed

lemma accept_after_run_level:
  "accept (run_level k cfg s) = accept (inner_loop k cfg (level_start k cfg s))"
  by (simp add: run_level_def Let_def record_termination_def)

lemma estimate_after_run_level:
  "estimate (run_level k cfg s) = estimate (inner_loop k cfg (level_start k cfg s))"
  by (simp add: run_level_def Let_def record_termination_def)

lemma initial_after_run_level:
  "initial (run_level k cfg s) = initial (inner_loop k cfg (level_start k cfg s))"
  by (simp add: run_level_def Let_def record_termination_def)

lemma inc_after_run_level:
  "inc (run_level k cfg s) = inc (inner_loop k cfg (level_start k cfg s))"
  by (simp add: run_level_def Let_def record_termination_def)

lemma Iterations_after_run_level:
  "Iterations (level_stats (run_level k cfg s)) =
     Iterations (level_stats (inner_loop k cfg (level_start k cfg s)))"
  by (simp add: level_stats_after_run_level Iterations_after_record_termination)

text \<open>
  The records of a level: there is at least one, all but the last belong to accepted
  iterations, and the last one does exactly when the loop ended with \<open>accept\<close> set.
\<close>

lemma level_records_shape:
  fixes k :: "('p, 'v, 'm, 'e) kernels"
  shows "Iterations (level_stats (inner_loop k cfg (level_start k cfg s))) \<noteq> []
     \<and> (\<forall>it \<in> set (butlast (Iterations (level_stats (inner_loop k cfg (level_start k cfg s))))).
           EstimateIncrement it \<noteq> None)
     \<and> (EstimateIncrement (last (Iterations
           (level_stats (inner_loop k cfg (level_start k cfg s))))) \<noteq> None) =
         accept (inner_loop k cfg (level_start k cfg s))"
proof (rule inner_loop_rule [where I = "\<lambda>t.
     \<forall>it \<in> set (Iterations (level_stats t)). EstimateIncrement it \<noteq> None"])
  show "\<forall>it \<in> set (Iterations (level_stats (level_start k cfg s))).
      EstimateIncrement it \<noteq> None"
    by (simp add: level_start_def)
next
  fix t :: "('p, 'v, 'm, 'e) vars"
  assume inv: "\<forall>it \<in> set (Iterations (level_stats t)). EstimateIncrement it \<noteq> None"
    and "continue_loop k cfg (iteration_body k cfg t)"
  then have "accept (iteration_body k cfg t)"
    by (simp add: continue_loop_def)
  with inv Iterations_after_body [of k cfg t]
  show "\<forall>it \<in> set (Iterations (level_stats (iteration_body k cfg t))).
      EstimateIncrement it \<noteq> None"
    by auto
next
  fix t :: "('p, 'v, 'm, 'e) vars"
  assume inv: "\<forall>it \<in> set (Iterations (level_stats t)). EstimateIncrement it \<noteq> None"
  with Iterations_after_body [of k cfg t]
  show "Iterations (level_stats (iteration_body k cfg t)) \<noteq> []
     \<and> (\<forall>it \<in> set (butlast (Iterations (level_stats (iteration_body k cfg t)))).
           EstimateIncrement it \<noteq> None)
     \<and> (EstimateIncrement (last (Iterations (level_stats (iteration_body k cfg t)))) \<noteq> None) =
         accept (iteration_body k cfg t)"
    by auto
qed

lemma accepted_iterations_shape:
  fixes k :: "('p, 'v, 'm, 'e) kernels"
  shows "accepted_iterations (level_stats (inner_loop k cfg (level_start k cfg s))) =
     (if accept (inner_loop k cfg (level_start k cfg s))
      then Iterations (level_stats (inner_loop k cfg (level_start k cfg s)))
      else butlast (Iterations (level_stats (inner_loop k cfg (level_start k cfg s)))))"
proof -
  let ?its = "Iterations (level_stats (inner_loop k cfg (level_start k cfg s)))"
  from level_records_shape [of k cfg s]
  have ne: "?its \<noteq> []"
    and bl: "\<forall>it \<in> set (butlast ?its). EstimateIncrement it \<noteq> None"
    and la: "(EstimateIncrement (last ?its) \<noteq> None) =
        accept (inner_loop k cfg (level_start k cfg s))"
    by blast+
  have "filter (\<lambda>it. EstimateIncrement it \<noteq> None) (butlast ?its @ [last ?its]) =
      (if accept (inner_loop k cfg (level_start k cfg s)) then butlast ?its @ [last ?its]
       else butlast ?its)"
    using bl la by (simp add: filter_all)
  with ne show ?thesis
    by (simp add: accepted_iterations_def)
qed

text \<open>
  The number of records of a level: the body runs once before the first test, and the
  test lets it run again only while the count of accepted iterations is below the
  budget.
\<close>

lemma level_iteration_count:
  fixes k :: "('p, 'v, 'm, 'e) kernels"
  shows "1 \<le> length (Iterations (level_stats (inner_loop k cfg (level_start k cfg s))))
     \<and> int (length (Iterations (level_stats (inner_loop k cfg (level_start k cfg s)))))
         \<le> max 1 (MaxIterationsPerLevel cfg)"
proof (rule inner_loop_rule [where I = "\<lambda>t.
     int (length (Iterations (level_stats t))) = Iteration t
     \<and> (Iteration t = 0 \<or> Iteration t < MaxIterationsPerLevel cfg)"])
  show "int (length (Iterations (level_stats (level_start k cfg s)))) =
      Iteration (level_start k cfg s)
     \<and> (Iteration (level_start k cfg s) = 0
         \<or> Iteration (level_start k cfg s) < MaxIterationsPerLevel cfg)"
    by (simp add: level_start_def)
next
  fix t :: "('p, 'v, 'm, 'e) vars"
  assume inv: "int (length (Iterations (level_stats t))) = Iteration t
     \<and> (Iteration t = 0 \<or> Iteration t < MaxIterationsPerLevel cfg)"
    and cont: "continue_loop k cfg (iteration_body k cfg t)"
  from cont have "accept (iteration_body k cfg t)"
    and "Iteration (iteration_body k cfg t) < MaxIterationsPerLevel cfg"
    by (simp_all add: continue_loop_def IterationsExceeded_ctx_def)
  with inv show "int (length (Iterations (level_stats (iteration_body k cfg t)))) =
      Iteration (iteration_body k cfg t)
     \<and> (Iteration (iteration_body k cfg t) = 0
         \<or> Iteration (iteration_body k cfg t) < MaxIterationsPerLevel cfg)"
    by (simp add: length_Iterations_after_body Iteration_after_body)
next
  fix t :: "('p, 'v, 'm, 'e) vars"
  assume inv: "int (length (Iterations (level_stats t))) = Iteration t
     \<and> (Iteration t = 0 \<or> Iteration t < MaxIterationsPerLevel cfg)"
  then show "1 \<le> length (Iterations (level_stats (iteration_body k cfg t)))
     \<and> int (length (Iterations (level_stats (iteration_body k cfg t))))
         \<le> max 1 (MaxIterationsPerLevel cfg)"
    by (auto simp: length_Iterations_after_body)
qed

section \<open>Facts about the last level\<close>

lemma ValidConstraints_after_body:
  "ValidConstraints (last (Iterations (level_stats (iteration_body k cfg s)))) =
     length (residuals (iteration_body k cfg s))"
  by (simp add: body_defs set_last_snoc split: prod.splits)

lemma Level_match_init: "Level (match_init k cfg t r) = FirstLevel cfg"
  by (simp add: match_init_def Let_def)

lemma Levels_match_init: "Levels (result (match_init k cfg t r)) = Levels r"
  by (simp add: match_init_def Let_def)

text \<open>
  With \<open>LastLevel \<le> FirstLevel\<close> the level loop runs at least once, so when it is over
  \<open>level_stats\<close> is the last element of the statistics and has the shape of a finished
  level. The reason \<open>LogLikelihoodDecreased\<close> is assigned at line 431 only.
\<close>

lemma final_level_facts:
  fixes k :: "('p, 'v, 'm, 'e) kernels" and t :: Tracker and r :: "('p, 'v, 'm) Result"
  assumes sane: "LastLevel cfg \<le> FirstLevel cfg"
  defines "s \<equiv> level_loop k cfg (match_init k cfg t r)"
  shows "Levels (result s) \<noteq> []"
    and "last (Levels (result s)) = level_stats s"
    and "Iterations (level_stats s) \<noteq> []"
    and "TerminationCriterion (level_stats s) = Some LogLikelihoodDecreased \<Longrightarrow> \<not> accept s"
    and "accepted_iterations (level_stats s) =
           (if accept s then Iterations (level_stats s)
            else butlast (Iterations (level_stats s)))"
proof -
  from sane have "LastLevel cfg \<le> Level (match_init k cfg t r)"
    by (simp add: Level_match_init)
  with level_loop_last [of "\<lambda>u. True" "match_init k cfg t r" cfg k]
  obtain u where u: "s = next_level k cfg u"
    unfolding s_def by blast
  let ?e = "inner_loop k cfg (level_start k cfg u)"
  have acc: "accept s = accept ?e"
    by (simp add: u next_level_def Let_def accept_after_run_level)
  have its: "Iterations (level_stats s) = Iterations (level_stats ?e)"
    by (simp add: u level_stats_after_next_level Iterations_after_run_level)
  show "Levels (result s) \<noteq> []"
    by (simp add: u Levels_after_next_level)
  show "last (Levels (result s)) = level_stats s"
    by (simp add: u Levels_after_next_level level_stats_after_next_level)
  show "Iterations (level_stats s) \<noteq> []"
    using level_records_shape [of k cfg u] by (simp add: its)
  show "\<not> accept s" if "TerminationCriterion (level_stats s) = Some LogLikelihoodDecreased"
    using that recorded_reason [of k cfg u]
    by (simp add: u level_stats_after_next_level acc [unfolded u] split: if_splits)
  show "accepted_iterations (level_stats s) =
           (if accept s then Iterations (level_stats s)
            else butlast (Iterations (level_stats s)))"
    using accepted_iterations_shape [of k cfg u]
    by (simp add: accepted_iterations_def its acc)
qed

text \<open>What \<open>match\<close> returns, by the two reads of lines 442 and 443.\<close>

lemma match_unfold:
  fixes k :: "('p, 'v, 'm, 'e) kernels"
  assumes ne: "Levels (result (level_loop k cfg (match_init k cfg t r))) \<noteq> []"
  shows "match k cfg t r =
     (case from_back (Iterations (last (Levels (result (level_loop k cfg (match_init k cfg t r))))))
             (if TerminationCriterion
                   (last (Levels (result (level_loop k cfg (match_init k cfg t r)))))
                 \<noteq> Some LogLikelihoodDecreased then 1 else 2) of
        Inl e \<Rightarrow> Inl e
      | Inr it \<Rightarrow>
          Inr (True, (result (level_loop k cfg (match_init k cfg t r)))
            \<lparr>Transformation := affine_of_se3 k (se3_inverse k
                 (current (estimate (level_loop k cfg (match_init k cfg t r))))),
             Information := map_option
                 (\<lambda>A. scaleMatrix k (scaleMatrix k A information_scale) information_scale)
                 (EstimateInformation it),
             LogLikelihood := dadd k (TDistributionLogLikelihood it)
                 (PriorLogLikelihood it)\<rparr>))"
  using ne by (simp add: match_def assemble_result_def Let_def split: sum.splits)

lemma last_butlast_nth:
  assumes "2 \<le> length xs"
  shows "last (butlast xs) = xs ! (length xs - 2)"
proof -
  from assms have ne: "butlast xs \<noteq> []"
    by (cases xs) (auto split: if_splits)
  have "length (butlast xs) - 1 = length xs - 2"
    by simp
  moreover from assms have "length xs - 2 < length (butlast xs)"
    by simp
  ultimately show ?thesis
    using ne by (simp add: last_conv_nth nth_butlast)
qed

text \<open>
  The result in general, with the levels of the configuration in order. Let \<open>L\<close> be the
  last level and \<open>it\<close> the record line 443 picks: the second to last of \<open>L\<close> when the
  recorded reason is \<open>LogLikelihoodDecreased\<close>, the last one otherwise. Unless that
  second-to-last record does not exist, \<open>match\<close> returns the inverse of the estimate,
  the matrix of \<open>it\<close> scaled twice and the sum of the two likelihoods of \<open>it\<close>. The
  record is the one of the last accepted iteration in two cases: when the recorded
  reason is \<open>LogLikelihoodDecreased\<close> and there are two records, and when the last
  iteration was accepted. The remaining case, a rejected last iteration under another
  recorded reason, is not among them.
\<close>

lemma match_result:
  fixes k :: "('p, 'v, 'm, 'e) kernels" and t :: Tracker and r :: "('p, 'v, 'm) Result"
  assumes sane: "LastLevel cfg \<le> FirstLevel cfg"
  defines "s \<equiv> level_loop k cfg (match_init k cfg t r)"
  defines "L \<equiv> last (Levels (result s))"
  defines "rejected \<equiv> (TerminationCriterion L = Some LogLikelihoodDecreased)"
  defines "it \<equiv> (if rejected then Iterations L ! (length (Iterations L) - 2)
                   else Iterations L ! (length (Iterations L) - 1))"
  shows "(if rejected \<and> length (Iterations L) < 2
          then match k cfg t r = Inl IndexOutOfRange
          else match k cfg t r =
                 Inr (True, (result s)
                   \<lparr>Transformation := affine_of_se3 k (se3_inverse k (current (estimate s))),
                    Information := map_option
                      (\<lambda>A. scaleMatrix k (scaleMatrix k A information_scale) information_scale)
                      (EstimateInformation it),
                    LogLikelihood := dadd k (TDistributionLogLikelihood it)
                      (PriorLogLikelihood it)\<rparr>))
     \<and> (rejected \<and> 2 \<le> length (Iterations L) \<longrightarrow> it = last (accepted_iterations L))
     \<and> (accept s \<longrightarrow> it = last (accepted_iterations L))"
proof -
  note facts = final_level_facts [OF sane, of k t r, folded s_def]
  have L: "L = level_stats s"
    by (simp add: L_def facts(2))
  have ne: "Iterations L \<noteq> []"
    by (simp add: L facts(3))
  then have pos: "0 < length (Iterations L)"
    by simp
  note levels = facts(1) [unfolded s_def]
  have m: "match k cfg t r =
      (if rejected \<and> length (Iterations L) < 2 then Inl IndexOutOfRange
       else Inr (True, (result s)
              \<lparr>Transformation := affine_of_se3 k (se3_inverse k (current (estimate s))),
               Information := map_option
                 (\<lambda>A. scaleMatrix k (scaleMatrix k A information_scale) information_scale)
                 (EstimateInformation it),
               LogLikelihood := dadd k (TDistributionLogLikelihood it)
                 (PriorLogLikelihood it)\<rparr>))"
    using pos
    by (simp add: match_unfold [OF levels] from_back_def it_def rejected_def
        L_def s_def not_less Suc_le_eq)
  have stepped: "it = last (accepted_iterations L)" if "rejected" "2 \<le> length (Iterations L)"
  proof -
    from that(1) have "\<not> accept s"
      using facts(4) by (simp add: rejected_def L)
    then have "accepted_iterations L = butlast (Iterations L)"
      by (simp add: L facts(5))
    moreover have "last (butlast (Iterations L)) = Iterations L ! (length (Iterations L) - 2)"
      using that(2) by (rule last_butlast_nth)
    ultimately show ?thesis
      using that(1) by (simp add: it_def)
  qed
  have direct: "it = last (accepted_iterations L)" if "accept s"
  proof -
    from that have "\<not> rejected"
      using facts(4) by (auto simp: rejected_def L)
    moreover from that have "accepted_iterations L = Iterations L"
      by (simp add: L facts(5))
    ultimately show ?thesis
      using ne by (simp add: it_def last_conv_nth)
  qed
  show ?thesis
    using m stepped direct by simp
qed

section \<open>Facts about a level without valid points\<close>

lemma residuals_after_body:
  "residuals (iteration_body k cfg s) =
     snd (computeResidualsSse k (Level s)
            (se3_mul k (se3_exp k (x_inc s)) (current (estimate s))))"
  by (simp add: body_defs update_def split: prod.splits)

lemma Error_after_body:
  "\<exists>w m pr. Error (iteration_body k cfg s) =
     dneg (computeCompleteDataLogLikelihood k (residuals (iteration_body k cfg s)) w m pr)"
  by (simp add: body_defs update_def split: prod.splits) blast

text \<open>
  When no point is valid and the likelihood of an empty range does not pass the test
  against \<open>DBL_MAX\<close>, the first iteration of a level is rejected and is the only one.
\<close>

lemma empty_level:
  fixes k :: "('p, 'v, 'm, 'e) kernels"
  assumes no_points: "\<forall>l p. snd (computeResidualsSse k l p) = []"
    and degenerate:
      "\<forall>w m pr. \<not> dless (dneg (computeCompleteDataLogLikelihood k [] w m pr)) DBL_MAX"
  shows "inner_loop k cfg (level_start k cfg u) = iteration_body k cfg (level_start k cfg u)"
    and "\<not> accept (iteration_body k cfg (level_start k cfg u))"
    and "residuals (iteration_body k cfg (level_start k cfg u)) = []"
proof -
  let ?s = "level_start k cfg u"
  show r: "residuals (iteration_body k cfg ?s) = []"
    using no_points by (simp add: residuals_after_body)
  obtain w m pr where "Error (iteration_body k cfg ?s) =
      dneg (computeCompleteDataLogLikelihood k [] w m pr)"
    using Error_after_body [of k cfg ?s] by (auto simp: r)
  moreover have "Error ?s = DBL_MAX"
    by (simp add: level_start_def)
  ultimately show a: "\<not> accept (iteration_body k cfg ?s)"
    using degenerate by (simp add: accept_after_body)
  then show "inner_loop k cfg ?s = iteration_body k cfg ?s"
    by (simp add: inner_loop_stop continue_loop_def)
qed

lemma empty_level_records:
  fixes k :: "('p, 'v, 'm, 'e) kernels"
  assumes no_points: "\<forall>l p. snd (computeResidualsSse k l p) = []"
    and degenerate:
      "\<forall>w m pr. \<not> dless (dneg (computeCompleteDataLogLikelihood k [] w m pr)) DBL_MAX"
  shows "length (Iterations (level_stats (run_level k cfg u))) = 1
     \<and> (\<forall>it \<in> set (Iterations (level_stats (run_level k cfg u))).
           ValidConstraints it = 0 \<and> EstimateIncrement it = None)"
proof -
  let ?s = "level_start k cfg u"
  note e = empty_level [OF no_points degenerate, of cfg u]
  obtain it where it: "Iterations (level_stats (iteration_body k cfg ?s)) =
      Iterations (level_stats ?s) @ [it]"
    "(EstimateIncrement it \<noteq> None) = accept (iteration_body k cfg ?s)"
    using Iterations_after_body [of k cfg ?s] by blast
  have start: "Iterations (level_stats ?s) = []"
    by (simp add: level_start_def)
  have "ValidConstraints it = 0"
    using ValidConstraints_after_body [of k cfg ?s] by (simp add: it(1) e(3))
  moreover have "EstimateIncrement it = None"
    using it(2) e(2) by simp
  ultimately show ?thesis
    by (simp add: Iterations_after_run_level e(1) it(1) start)
qed

lemma empty_level_poses:
  fixes k :: "('p, 'v, 'm, 'e) kernels"
  assumes no_points: "\<forall>l p. snd (computeResidualsSse k l p) = []"
    and degenerate:
      "\<forall>w m pr. \<not> dless (dneg (computeCompleteDataLogLikelihood k [] w m pr)) DBL_MAX"
  shows "current (estimate (next_level k cfg u)) = current (estimate u)
     \<and> current (initial (next_level k cfg u)) = current (initial u)"
proof -
  note e = empty_level [OF no_points degenerate, of cfg u]
  have "current (estimate (level_start k cfg u)) = current (estimate u)"
    and "current (initial (level_start k cfg u)) = current (initial u)"
    by (simp_all add: level_start_def)
  then show ?thesis
    using e(2)
    by (simp add: next_level_def Let_def estimate_after_run_level initial_after_run_level
        e(1) estimate_after_body initial_after_body)
qed

section \<open>Facts about the increment\<close>

lemma inner_loop_ends_with_body:
  fixes k :: "('p, 'v, 'm, 'e) kernels"
  shows "\<exists>u. inner_loop k cfg s = iteration_body k cfg u"
  by (rule inner_loop_rule [where I = "\<lambda>u. True"]) auto

lemma x_inc_level_start: "x_inc (level_start k cfg s) = se3_log k (inc s)"
  by (simp add: level_start_def)

lemma first_trial:
  "current (estimate (stage_increment k (level_start k cfg s))) =
     se3_mul k (se3_exp k (se3_log k (inc s))) (current (estimate s))"
  by (simp add: stage_increment_def Let_def level_start_def update_def)

text \<open>The solve of an iteration comes after its acceptance test and does not touch the poses.\<close>

lemma body_without_solve:
  "accept (iteration_body (k\<lparr>ldlt_solve := f\<rparr>) cfg s) = accept (iteration_body k cfg s)
   \<and> Error (iteration_body (k\<lparr>ldlt_solve := f\<rparr>) cfg s) = Error (iteration_body k cfg s)
   \<and> estimate (iteration_body (k\<lparr>ldlt_solve := f\<rparr>) cfg s) = estimate (iteration_body k cfg s)
   \<and> initial (iteration_body (k\<lparr>ldlt_solve := f\<rparr>) cfg s) = initial (iteration_body k cfg s)"
  by (simp add: body_defs split: prod.splits)

lemma dless_NaN: "\<not> dless a NaN"
  by (cases a) simp_all


section \<open>The claims\<close>

text \<open>
  C1. In every iteration of the inner loop the error of the iteration before becomes
  \<open>LastError\<close> (it is \<open>DBL_MAX\<close> when the level starts), and the staged updates
  \<open>initial \<leftarrow> inc\<^sup>-\<^sup>1 * initial\<close> and \<open>estimate \<leftarrow> inc * estimate\<close> are kept exactly when the
  new error is strictly less than it. Otherwise both poses are back at their values of
  before the iteration and the inner loop ends with this iteration. Hence the errors
  recorded by the accepted iterations of a level, headed by \<open>DBL_MAX\<close>, are strictly
  decreasing, at every level that \<open>match\<close> adds to the statistics.
\<close>

theorem C1_commit_iff_strict_improvement:
  fixes k :: "('p, 'v, 'm, 'e) kernels"
  shows
    "LastError (iteration_body k cfg s) = Error s
     \<and> accept (iteration_body k cfg s) = dless (Error (iteration_body k cfg s)) (Error s)
     \<and> current (initial (iteration_body k cfg s)) =
         (if accept (iteration_body k cfg s)
          then se3_mul k (se3_inverse k (se3_exp k (x_inc s))) (current (initial s))
          else current (initial s))
     \<and> current (estimate (iteration_body k cfg s)) =
         (if accept (iteration_body k cfg s)
          then se3_mul k (se3_exp k (x_inc s)) (current (estimate s))
          else current (estimate s))
     \<and> (\<not> accept (iteration_body k cfg s) \<longrightarrow>
          inner_loop k cfg s = iteration_body k cfg s)
     \<and> Error (level_start k cfg s) = DBL_MAX
     \<and> strictly_decreasing (DBL_MAX # recorded_errors
          (accepted_iterations (level_stats (run_level k cfg s))))
     \<and> (\<exists>ls. Levels (result (level_loop k cfg (match_init k cfg t r))) = Levels r @ ls
          \<and> (\<forall>l \<in> set ls.
                strictly_decreasing (DBL_MAX # recorded_errors (accepted_iterations l))))"
proof -
  have stop: "\<not> accept (iteration_body k cfg s) \<longrightarrow>
      inner_loop k cfg s = iteration_body k cfg s"
    by (simp add: inner_loop_stop continue_loop_def)
  have start: "Error (level_start k cfg s) = DBL_MAX"
    by (simp add: level_start_def)
  have "Levels (result (match_init k cfg t r)) = Levels r"
    by (simp add: match_init_def Let_def)
  with level_loop_rule [of "\<lambda>t. True" "match_init k cfg t r" cfg k
      "\<lambda>l. strictly_decreasing (DBL_MAX # recorded_errors (accepted_iterations l))"]
  have levels: "\<exists>ls. Levels (result (level_loop k cfg (match_init k cfg t r))) = Levels r @ ls
      \<and> (\<forall>l \<in> set ls.
            strictly_decreasing (DBL_MAX # recorded_errors (accepted_iterations l)))"
    by (simp add: run_level_errors_decreasing)
  show ?thesis
    using LastError_after_body [of k cfg s] accept_after_body [of k cfg s]
      initial_after_body [of k cfg s] estimate_after_body [of k cfg s]
      stop start run_level_errors_decreasing [of k cfg s] levels
    by (intro conjI)
qed

theorem C1_commit_iff_strict_improvement_witness:
  "\<not> accept (iteration_body k_empty cfg_single
        (level_start k_empty cfg_single
           (match_init k_empty cfg_single tracker0 (result0 0))))
   \<and> inner_loop k_empty cfg_single
        (level_start k_empty cfg_single
           (match_init k_empty cfg_single tracker0 (result0 0))) =
      iteration_body k_empty cfg_single
        (level_start k_empty cfg_single
           (match_init k_empty cfg_single tracker0 (result0 0)))
   \<and> map (\<lambda>l. recorded_errors (accepted_iterations l))
        (Levels (result (level_loop k_descent cfg_single
           (match_init k_descent cfg_single tracker0 (result0 0))))) =
      [Num 3, Num 2, Num 1, Num 0] # []
   \<and> strictly_decreasing [DBL_MAX, Num 3, Num 2, Num 1, Num 0]"
proof -
  let ?s = "level_start k_empty cfg_single
              (match_init k_empty cfg_single tracker0 (result0 0))"
  have rej: "\<not> accept (iteration_body k_empty cfg_single ?s)"
    by code_simp
  have run: "map (\<lambda>l. recorded_errors (accepted_iterations l))
        (Levels (result (level_loop k_descent cfg_single
           (match_init k_descent cfg_single tracker0 (result0 0))))) =
      [Num 3, Num 2, Num 1, Num 0] # []"
    by code_simp
  note inst = C1_commit_iff_strict_improvement
    [where k = k_empty and cfg = cfg_single and s = ?s]
  note inst' = C1_commit_iff_strict_improvement
    [where k = k_descent and cfg = cfg_single and t = tracker0 and r = "result0 0"]
  from inst rej have stop: "inner_loop k_empty cfg_single ?s = iteration_body k_empty cfg_single ?s"
    by blast
  from inst' obtain ls where ls:
    "Levels (result (level_loop k_descent cfg_single
       (match_init k_descent cfg_single tracker0 (result0 0)))) = Levels (result0 0) @ ls"
    "\<forall>l \<in> set ls. strictly_decreasing (DBL_MAX # recorded_errors (accepted_iterations l))"
    by blast
  from run ls(1) have "map (\<lambda>l. recorded_errors (accepted_iterations l)) ls =
      [Num 3, Num 2, Num 1, Num 0] # []"
    by (simp add: result0_def)
  with ls(2) have "strictly_decreasing [DBL_MAX, Num 3, Num 2, Num 1, Num 0]"
    by auto
  with rej stop run show ?thesis by blast
qed

text \<open>
  C2 as stated fails. The three tests of lines 430 to 437 run one after the other and
  each assignment replaces the one before, so of the reasons that hold the last one
  tested is recorded. An accepted iteration whose increment is zero and which uses up
  a budget of one makes a level that is both converged and exhausted: it is recorded
  as \<open>IterationsExceeded\<close>. And an accepted iteration whose increment has a norm that is
  not a number ends the level with none of the three tests holding: nothing is
  recorded.
\<close>

theorem C2_counterexample:
  "accept (run_level k_converged cfg_one_iteration
      (match_init k_converged cfg_one_iteration tracker0 (result0 0)))
   \<and> dle (lpNormInf k_converged (x_inc (run_level k_converged cfg_one_iteration
        (match_init k_converged cfg_one_iteration tracker0 (result0 0)))))
        (Precision cfg_one_iteration)
   \<and> IterationsExceeded_ctx cfg_one_iteration (run_level k_converged cfg_one_iteration
        (match_init k_converged cfg_one_iteration tracker0 (result0 0)))
   \<and> TerminationCriterion (level_stats (run_level k_converged cfg_one_iteration
        (match_init k_converged cfg_one_iteration tracker0 (result0 0)))) =
      Some IterationsExceeded
   \<and> TerminationCriterion (level_stats (run_level k_singular cfg_single
        (match_init k_singular cfg_single tracker0 (result0 0)))) = None"
  by code_simp

text \<open>
  C2, amended. Every level records at most one reason. For a level whose last
  iteration was accepted it is \<open>IterationsExceeded\<close> when the count has reached the
  budget, else \<open>IncrementTooSmall\<close> when the largest component of the increment is at
  most \<open>Precision\<close>, else none. A level whose last iteration was rejected while neither
  of the other two conditions holds records \<open>LogLikelihoodDecreased\<close>, and a level that
  records \<open>LogLikelihoodDecreased\<close> did end with a rejected iteration: the last of its
  records carries no increment. This holds for every level \<open>match\<close> adds.
\<close>

theorem C2_recorded_reason:
  fixes k :: "('p, 'v, 'm, 'e) kernels"
  shows
    "(accept (run_level k cfg s) \<longrightarrow>
        TerminationCriterion (level_stats (run_level k cfg s)) =
          (if IterationsExceeded_ctx cfg (run_level k cfg s) then Some IterationsExceeded
           else if dle (lpNormInf k (x_inc (run_level k cfg s))) (Precision cfg)
           then Some IncrementTooSmall
           else None))
     \<and> (\<not> accept (run_level k cfg s)
          \<and> \<not> dle (lpNormInf k (x_inc (run_level k cfg s))) (Precision cfg)
          \<and> \<not> IterationsExceeded_ctx cfg (run_level k cfg s) \<longrightarrow>
        TerminationCriterion (level_stats (run_level k cfg s)) = Some LogLikelihoodDecreased)
     \<and> (TerminationCriterion (level_stats (run_level k cfg s)) = Some LogLikelihoodDecreased
          \<longrightarrow> \<not> accept (run_level k cfg s))
     \<and> (\<exists>ls. Levels (result (level_loop k cfg (match_init k cfg t r))) = Levels r @ ls
          \<and> (\<forall>l \<in> set ls. TerminationCriterion l = Some LogLikelihoodDecreased \<longrightarrow>
                Iterations l \<noteq> [] \<and> EstimateIncrement (last (Iterations l)) = None))"
proof -
  let ?e = "\<lambda>u. inner_loop k cfg (level_start k cfg u)"
  have same: "accept (run_level k cfg u) = accept (?e u)"
    "x_inc (run_level k cfg u) = x_inc (?e u)"
    "IterationsExceeded_ctx cfg (run_level k cfg u) = IterationsExceeded_ctx cfg (?e u)" for u
    by (simp_all add: run_level_def record_termination_def Let_def IterationsExceeded_ctx_def)
  have accepted: "accept (run_level k cfg s) \<longrightarrow>
        TerminationCriterion (level_stats (run_level k cfg s)) =
          (if IterationsExceeded_ctx cfg (run_level k cfg s) then Some IterationsExceeded
           else if dle (lpNormInf k (x_inc (run_level k cfg s))) (Precision cfg)
           then Some IncrementTooSmall
           else None)"
    by (simp add: same recorded_reason)
  have rejected: "\<not> accept (run_level k cfg s)
          \<and> \<not> dle (lpNormInf k (x_inc (run_level k cfg s))) (Precision cfg)
          \<and> \<not> IterationsExceeded_ctx cfg (run_level k cfg s) \<longrightarrow>
        TerminationCriterion (level_stats (run_level k cfg s)) = Some LogLikelihoodDecreased"
    by (simp add: same recorded_reason)
  have really: "TerminationCriterion (level_stats (run_level k cfg u)) =
        Some LogLikelihoodDecreased \<longrightarrow> \<not> accept (run_level k cfg u)" for u
    by (simp add: same recorded_reason split: if_splits)
  have records: "TerminationCriterion (level_stats (run_level k cfg u)) =
        Some LogLikelihoodDecreased \<longrightarrow>
      Iterations (level_stats (run_level k cfg u)) \<noteq> []
      \<and> EstimateIncrement (last (Iterations (level_stats (run_level k cfg u)))) = None" for u
  proof -
    from level_records_shape [of k cfg u]
    have "Iterations (level_stats (?e u)) \<noteq> []"
      and "(EstimateIncrement (last (Iterations (level_stats (?e u)))) \<noteq> None) =
        accept (?e u)"
      by blast+
    with really [of u] show ?thesis
      by (auto simp: same Iterations_after_run_level)
  qed
  from level_loop_rule [of "\<lambda>u. True" "match_init k cfg t r" cfg k
      "\<lambda>l. TerminationCriterion l = Some LogLikelihoodDecreased \<longrightarrow>
         Iterations l \<noteq> [] \<and> EstimateIncrement (last (Iterations l)) = None"] records
  have levels: "\<exists>ls. Levels (result (level_loop k cfg (match_init k cfg t r))) = Levels r @ ls
      \<and> (\<forall>l \<in> set ls. TerminationCriterion l = Some LogLikelihoodDecreased \<longrightarrow>
            Iterations l \<noteq> [] \<and> EstimateIncrement (last (Iterations l)) = None)"
    by (simp add: Levels_match_init)
  show ?thesis
    using accepted rejected really [of s] levels by (intro conjI)
qed

theorem C2_recorded_reason_witness:
  "\<not> accept (run_level k_descent cfg_single
        (match_init k_descent cfg_single tracker0 (result0 0)))
   \<and> \<not> dle (lpNormInf k_descent (x_inc (run_level k_descent cfg_single
        (match_init k_descent cfg_single tracker0 (result0 0))))) (Precision cfg_single)
   \<and> \<not> IterationsExceeded_ctx cfg_single (run_level k_descent cfg_single
        (match_init k_descent cfg_single tracker0 (result0 0)))
   \<and> TerminationCriterion (level_stats (run_level k_descent cfg_single
        (match_init k_descent cfg_single tracker0 (result0 0)))) =
      Some LogLikelihoodDecreased
   \<and> accept (run_level k_two_points cfg_one_iteration
        (match_init k_two_points cfg_one_iteration tracker0 (result0 0)))
   \<and> IterationsExceeded_ctx cfg_one_iteration (run_level k_two_points cfg_one_iteration
        (match_init k_two_points cfg_one_iteration tracker0 (result0 0)))
   \<and> TerminationCriterion (level_stats (run_level k_two_points cfg_one_iteration
        (match_init k_two_points cfg_one_iteration tracker0 (result0 0)))) =
      Some IterationsExceeded"
proof -
  let ?a = "run_level k_descent cfg_single
        (match_init k_descent cfg_single tracker0 (result0 0))"
  let ?b = "run_level k_two_points cfg_one_iteration
        (match_init k_two_points cfg_one_iteration tracker0 (result0 0))"
  have a: "\<not> accept ?a"
    "\<not> dle (lpNormInf k_descent (x_inc ?a)) (Precision cfg_single)"
    "\<not> IterationsExceeded_ctx cfg_single ?a"
    by code_simp+
  have b: "accept ?b" "IterationsExceeded_ctx cfg_one_iteration ?b"
    by code_simp+
  note first = C2_recorded_reason [where k = k_descent and cfg = cfg_single
      and s = "match_init k_descent cfg_single tracker0 (result0 0)"]
  note second = C2_recorded_reason [where k = k_two_points and cfg = cfg_one_iteration
      and s = "match_init k_two_points cfg_one_iteration tracker0 (result0 0)"]
  from first [THEN conjunct2, THEN conjunct1] a
  have ra: "TerminationCriterion (level_stats ?a) = Some LogLikelihoodDecreased"
    by (simp only: simp_thms)
  from second [THEN conjunct1] b
  have rb: "TerminationCriterion (level_stats ?b) = Some IterationsExceeded"
    by (simp only: simp_thms if_True)
  from a b ra rb show ?thesis by (intro conjI)
qed

text \<open>
  C3. The claim is that the result is filled from the statistics of the last accepted
  iteration. The run below has one level, no valid point and the identity as the
  guess. Its only iteration is rejected; the seeded increment is zero, so line 433
  replaces the reason by \<open>IncrementTooSmall\<close>, and line 443, which steps back over a
  rejected iteration only under the reason \<open>LogLikelihoodDecreased\<close>, takes the last
  record. That is the record of the rejected iteration: the level has no accepted
  iteration at all, \<open>Information\<close> comes from a matrix that was never assigned, and
  \<open>LogLikelihood\<close> from the rejected error.
\<close>

theorem C3_result_from_rejected_record:
  "\<not> isl (match k_empty cfg_single tracker0 (result0 0))
   \<and> \<not> accept (level_loop k_empty cfg_single
        (match_init k_empty cfg_single tracker0 (result0 0)))
   \<and> map TerminationCriterion
        (Levels (snd (projr (match k_empty cfg_single tracker0 (result0 0))))) =
      [Some IncrementTooSmall]
   \<and> map (\<lambda>l. length (Iterations l))
        (Levels (snd (projr (match k_empty cfg_single tracker0 (result0 0))))) = [1]
   \<and> map (\<lambda>l. length (accepted_iterations l))
        (Levels (snd (projr (match k_empty cfg_single tracker0 (result0 0))))) = [0]
   \<and> map EstimateInformation (concat (map Iterations
        (Levels (snd (projr (match k_empty cfg_single tracker0 (result0 0))))))) = [None]
   \<and> map TDistributionLogLikelihood (concat (map Iterations
        (Levels (snd (projr (match k_empty cfg_single tracker0 (result0 0))))))) = [NaN]
   \<and> Information (snd (projr (match k_empty cfg_single tracker0 (result0 0)))) = None
   \<and> LogLikelihood (snd (projr (match k_empty cfg_single tracker0 (result0 0)))) = NaN"
  by code_simp

text \<open>
  C4 as stated fails. With two levels, no valid point at either, a likelihood that is
  not a number, and the guess 2 in use, every level records one iteration, not none,
  and the pose returned is the identity (here 0), not the guess.
\<close>

theorem C4_counterexample:
  "(\<forall>l p. snd (computeResidualsSse k_empty l p) = [])
   \<and> UseInitialEstimate cfg_wide
   \<and> Transformation (result0 2) = 2
   \<and> \<not> isl (match k_empty cfg_wide tracker0 (result0 2))
   \<and> map (\<lambda>l. length (Iterations l))
        (Levels (snd (projr (match k_empty cfg_wide tracker0 (result0 2))))) = [1, 1]
   \<and> Transformation (snd (projr (match k_empty cfg_wide tracker0 (result0 2)))) = 0"
proof -
  have "\<forall>l p. snd (computeResidualsSse k_empty l p) = []"
    by (simp add: k_empty_def toy_def)
  moreover have "UseInitialEstimate cfg_wide"
    by code_simp
  moreover have "Transformation (result0 2) = 2"
    by (simp add: result0_def)
  moreover have "\<not> isl (match k_empty cfg_wide tracker0 (result0 2))"
    by code_simp
  moreover have "map (\<lambda>l. length (Iterations l))
        (Levels (snd (projr (match k_empty cfg_wide tracker0 (result0 2))))) = [1, 1]"
    by code_simp
  moreover have "Transformation (snd (projr (match k_empty cfg_wide tracker0 (result0 2)))) = 0"
    by code_simp
  ultimately show ?thesis by blast
qed

text \<open>
  C4, amended. When no level yields a valid point and the likelihood of an empty range
  of residuals does not pass the test against \<open>DBL_MAX\<close> (it is not a number, say), the
  inner loop runs exactly once at every level; that iteration is rejected and records
  no valid constraint. Each time the staged guess is taken back, so when the levels
  are done the estimate is still the identity and \<open>initial\<close> still the guess (the
  identity when \<open>UseInitialEstimate\<close> is off). A result that \<open>match\<close> returns carries the
  inverse of the identity, and the flag true.
\<close>

theorem C4_no_valid_points:
  fixes k :: "('p, 'v, 'm, 'e) kernels" and t :: Tracker and r :: "('p, 'v, 'm) Result"
  assumes no_points: "\<forall>l p. snd (computeResidualsSse k l p) = []"
    and degenerate:
      "\<forall>w m pr. \<not> dless (dneg (computeCompleteDataLogLikelihood k [] w m pr)) DBL_MAX"
  shows "(\<exists>ls. Levels (result (level_loop k cfg (match_init k cfg t r))) = Levels r @ ls
           \<and> (\<forall>l \<in> set ls. length (Iterations l) = 1
                 \<and> (\<forall>it \<in> set (Iterations l).
                       ValidConstraints it = 0 \<and> EstimateIncrement it = None)))
     \<and> current (estimate (level_loop k cfg (match_init k cfg t r))) = se3_identity k
     \<and> current (initial (level_loop k cfg (match_init k cfg t r))) =
         se3_of_affine k (if UseInitialEstimate cfg then Transformation r
                          else affine_identity k)
     \<and> (\<forall>b r'. match k cfg t r = Inr (b, r') \<longrightarrow>
           b \<and> Transformation r' = affine_of_se3 k (se3_inverse k (se3_identity k)))"
proof -
  let ?g = "se3_of_affine k (if UseInitialEstimate cfg then Transformation r
                             else affine_identity k)"
  let ?I = "\<lambda>u :: ('p, 'v, 'm, 'e) vars.
      current (estimate u) = se3_identity k \<and> current (initial u) = ?g"
  let ?P = "\<lambda>l :: ('v, 'm) LevelStats. length (Iterations l) = 1
      \<and> (\<forall>it \<in> set (Iterations l). ValidConstraints it = 0 \<and> EstimateIncrement it = None)"
  let ?s = "level_loop k cfg (match_init k cfg t r)"
  have start: "?I (match_init k cfg t r)"
    by (simp add: match_init_def Let_def Revertable_of_def)
  have step: "?I (next_level k cfg u)" if "?I u" for u
    using that empty_level_poses [OF no_points degenerate, of cfg u] by simp
  have stats: "?P (level_stats (run_level k cfg u))" for u
    using empty_level_records [OF no_points degenerate, of cfg u] .
  from level_loop_rule [of ?I "match_init k cfg t r" cfg k ?P, OF start step stats]
  have inv: "?I ?s"
    and levels: "\<exists>ls. Levels (result ?s) = Levels r @ ls \<and> (\<forall>l \<in> set ls. ?P l)"
    by (simp_all add: Levels_match_init)
  have returned: "\<forall>b r'. match k cfg t r = Inr (b, r') \<longrightarrow>
      b \<and> Transformation r' = affine_of_se3 k (se3_inverse k (se3_identity k))"
    using inv
    by (auto simp: match_def assemble_result_def Let_def split: sum.splits if_splits)
  show ?thesis
    using levels inv returned by (intro conjI) blast+
qed

theorem C4_no_valid_points_witness:
  "(\<forall>l p. snd (computeResidualsSse k_empty l p) = [])
   \<and> (\<forall>w m pr. \<not> dless (dneg (computeCompleteDataLogLikelihood k_empty [] w m pr)) DBL_MAX)
   \<and> current (estimate (level_loop k_empty cfg_wide
        (match_init k_empty cfg_wide tracker0 (result0 2)))) = 0
   \<and> current (initial (level_loop k_empty cfg_wide
        (match_init k_empty cfg_wide tracker0 (result0 2)))) = 2
   \<and> \<not> isl (match k_empty cfg_wide tracker0 (result0 2))
   \<and> fst (projr (match k_empty cfg_wide tracker0 (result0 2)))
   \<and> Transformation (snd (projr (match k_empty cfg_wide tracker0 (result0 2)))) = - 0"
proof -
  have no_points: "\<forall>l p. snd (computeResidualsSse k_empty l p) = []"
    by (simp add: k_empty_def toy_def)
  have degenerate:
    "\<forall>w m pr. \<not> dless (dneg (computeCompleteDataLogLikelihood k_empty [] w m pr)) DBL_MAX"
    by (simp add: k_empty_def toy_def)
  have returns: "\<not> isl (match k_empty cfg_wide tracker0 (result0 2))"
    by code_simp
  then obtain b r' where m: "match k_empty cfg_wide tracker0 (result0 2) = Inr (b, r')"
    by (cases "match k_empty cfg_wide tracker0 (result0 2)") auto
  note inst = C4_no_valid_points [OF no_points degenerate, of cfg_wide tracker0 "result0 2"]
  from inst m have "b" and "Transformation r' = - 0"
    by (simp_all add: k_empty_def toy_def)
  moreover from inst have "current (estimate (level_loop k_empty cfg_wide
        (match_init k_empty cfg_wide tracker0 (result0 2)))) = 0"
    and "current (initial (level_loop k_empty cfg_wide
        (match_init k_empty cfg_wide tracker0 (result0 2)))) = 2"
    by (simp_all add: k_empty_def toy_def cfg_wide_def cfg_two_levels_def cfg_single_def
        result0_def)
  ultimately show ?thesis
    using no_points degenerate returns m by simp
qed

text \<open>
  C5 as stated fails: \<open>match\<close> does not look at the system it solves. With a singular
  matrix at every pose the first iteration stays accepted, its record carries the
  increment that is not a number together with the singular matrix, the level is not
  recorded as rejected, and \<open>match\<close> returns true.
\<close>

theorem C5_counterexample:
  "accept (run_level k_singular cfg_single
      (match_init k_singular cfg_single tracker0 (result0 0)))
   \<and> map EstimateInformation (Iterations (level_stats (run_level k_singular cfg_single
        (match_init k_singular cfg_single tracker0 (result0 0))))) = [Some 0]
   \<and> map EstimateIncrement (Iterations (level_stats (run_level k_singular cfg_single
        (match_init k_singular cfg_single tracker0 (result0 0))))) = [Some NaN]
   \<and> TerminationCriterion (level_stats (run_level k_singular cfg_single
        (match_init k_singular cfg_single tracker0 (result0 0))))
      \<noteq> Some LogLikelihoodDecreased
   \<and> \<not> isl (match k_singular cfg_single tracker0 (result0 0))
   \<and> fst (projr (match k_singular cfg_single tracker0 (result0 0)))"
  by code_simp

text \<open>
  C5, amended. There is no check of the matrix or of the solved increment. Whether an
  iteration is accepted, its error and both poses are the same whatever the solve
  returns, and the estimate an iteration leaves is the trial exactly when the error of
  the trial is strictly less than the error before, the old estimate otherwise. An
  accepted iteration whose increment has a largest component that is not a number
  ends the inner loop, since no comparison with it holds, with the trial of that
  iteration as the estimate; the increment itself is never applied, since the next
  level seeds its own and the result does not depend on it.
\<close>

theorem C5_no_degeneracy_check:
  fixes k :: "('p, 'v, 'm, 'e) kernels"
  shows
    "accept (iteration_body (k\<lparr>ldlt_solve := f\<rparr>) cfg s) = accept (iteration_body k cfg s)
     \<and> Error (iteration_body (k\<lparr>ldlt_solve := f\<rparr>) cfg s) = Error (iteration_body k cfg s)
     \<and> estimate (iteration_body (k\<lparr>ldlt_solve := f\<rparr>) cfg s) =
         estimate (iteration_body k cfg s)
     \<and> initial (iteration_body (k\<lparr>ldlt_solve := f\<rparr>) cfg s) =
         initial (iteration_body k cfg s)
     \<and> current (estimate (iteration_body k cfg s)) =
         (if dless (Error (iteration_body k cfg s)) (Error s)
          then se3_mul k (se3_exp k (x_inc s)) (current (estimate s))
          else current (estimate s))
     \<and> (accept (iteration_body k cfg s)
          \<and> lpNormInf k (x_inc (iteration_body k cfg s)) = NaN \<longrightarrow>
          inner_loop k cfg s = iteration_body k cfg s
          \<and> current (estimate (inner_loop k cfg s)) =
              se3_mul k (se3_exp k (x_inc s)) (current (estimate s)))
     \<and> level_start k cfg (s\<lparr>x_inc := v\<rparr>) = level_start k cfg s
     \<and> assemble_result k (s\<lparr>x_inc := v\<rparr>) = assemble_result k s"
proof -
  have gate: "current (estimate (iteration_body k cfg s)) =
         (if dless (Error (iteration_body k cfg s)) (Error s)
          then se3_mul k (se3_exp k (x_inc s)) (current (estimate s))
          else current (estimate s))"
    using estimate_after_body [of k cfg s] accept_after_body [of k cfg s] by simp
  have nan: "accept (iteration_body k cfg s)
          \<and> lpNormInf k (x_inc (iteration_body k cfg s)) = NaN \<longrightarrow>
          inner_loop k cfg s = iteration_body k cfg s
          \<and> current (estimate (inner_loop k cfg s)) =
              se3_mul k (se3_exp k (x_inc s)) (current (estimate s))"
    by (simp add: inner_loop_stop continue_loop_def dless_NaN estimate_after_body)
  have seed: "level_start k cfg (s\<lparr>x_inc := v\<rparr>) = level_start k cfg s"
    by (simp add: level_start_def)
  have res: "assemble_result k (s\<lparr>x_inc := v\<rparr>) = assemble_result k s"
    by (simp add: assemble_result_def Let_def split: sum.splits)
  show ?thesis
    using body_without_solve [where k = k and f = f and cfg = cfg and s = s] gate nan seed res by (intro conjI) blast+
qed

theorem C5_no_degeneracy_check_witness:
  "accept (iteration_body k_singular cfg_single
      (level_start k_singular cfg_single
         (match_init k_singular cfg_single tracker0 (result0 0))))
   \<and> lpNormInf k_singular (x_inc (iteration_body k_singular cfg_single
        (level_start k_singular cfg_single
           (match_init k_singular cfg_single tracker0 (result0 0))))) = NaN
   \<and> inner_loop k_singular cfg_single
        (level_start k_singular cfg_single
           (match_init k_singular cfg_single tracker0 (result0 0))) =
      iteration_body k_singular cfg_single
        (level_start k_singular cfg_single
           (match_init k_singular cfg_single tracker0 (result0 0)))"
proof -
  let ?s = "level_start k_singular cfg_single
              (match_init k_singular cfg_single tracker0 (result0 0))"
  have acc: "accept (iteration_body k_singular cfg_single ?s)"
    by code_simp
  have nan: "lpNormInf k_singular (x_inc (iteration_body k_singular cfg_single ?s)) = NaN"
    by code_simp
  from C5_no_degeneracy_check [where k = k_singular and cfg = cfg_single and s = ?s] acc nan
  have "inner_loop k_singular cfg_single ?s = iteration_body k_singular cfg_single ?s"
    by blast
  with acc nan show ?thesis by blast
qed

text \<open>
  C6 as stated fails where the budget is zero: the body of a \<open>do\<close> loop runs once before
  the test is made, so the level has one record.
\<close>

theorem C6_counterexample:
  "\<not> int (length (Iterations (level_stats (run_level k_descent cfg_no_budget
          (match_init k_descent cfg_no_budget tracker0 (result0 0))))))
       \<le> MaxIterationsPerLevel cfg_no_budget"
  by code_simp

text \<open>
  C6, amended. After each pass of the body the inner loop goes on exactly when the
  iteration was accepted, the largest component of the solved increment is greater than
  \<open>Precision\<close> and the count is below \<open>MaxIterationsPerLevel\<close>. Every level records at
  least one iteration and at most \<open>max 1 MaxIterationsPerLevel\<close>; with a budget of at
  least one that is at most \<open>MaxIterationsPerLevel\<close>.
\<close>

theorem C6_loop_condition_and_bound:
  fixes k :: "('p, 'v, 'm, 'e) kernels"
  shows
    "inner_loop k cfg s =
       (if accept (iteration_body k cfg s)
           \<and> dless (Precision cfg) (lpNormInf k (x_inc (iteration_body k cfg s)))
           \<and> Iteration (iteration_body k cfg s) < MaxIterationsPerLevel cfg
        then inner_loop k cfg (iteration_body k cfg s)
        else iteration_body k cfg s)
     \<and> 1 \<le> length (Iterations (level_stats (run_level k cfg s)))
     \<and> int (length (Iterations (level_stats (run_level k cfg s))))
         \<le> max 1 (MaxIterationsPerLevel cfg)
     \<and> (1 \<le> MaxIterationsPerLevel cfg \<longrightarrow>
          int (length (Iterations (level_stats (run_level k cfg s))))
            \<le> MaxIterationsPerLevel cfg)
     \<and> (\<exists>ls. Levels (result (level_loop k cfg (match_init k cfg t r))) = Levels r @ ls
          \<and> (\<forall>l \<in> set ls. 1 \<le> length (Iterations l)
                \<and> int (length (Iterations l)) \<le> max 1 (MaxIterationsPerLevel cfg)))"
proof -
  have loop: "inner_loop k cfg s =
       (if accept (iteration_body k cfg s)
           \<and> dless (Precision cfg) (lpNormInf k (x_inc (iteration_body k cfg s)))
           \<and> Iteration (iteration_body k cfg s) < MaxIterationsPerLevel cfg
        then inner_loop k cfg (iteration_body k cfg s)
        else iteration_body k cfg s)"
    by (subst inner_loop.simps)
      (simp add: continue_loop_def IterationsExceeded_ctx_def Let_def not_le)
  have count: "\<And>u. 1 \<le> length (Iterations (level_stats (run_level k cfg u)))
      \<and> int (length (Iterations (level_stats (run_level k cfg u))))
          \<le> max 1 (MaxIterationsPerLevel cfg)"
    using level_iteration_count [of k cfg] by (simp add: Iterations_after_run_level)
  have "Levels (result (match_init k cfg t r)) = Levels r"
    by (simp add: match_init_def Let_def)
  with level_loop_rule [of "\<lambda>t. True" "match_init k cfg t r" cfg k
      "\<lambda>l. 1 \<le> length (Iterations l)
         \<and> int (length (Iterations l)) \<le> max 1 (MaxIterationsPerLevel cfg)"] count
  have levels: "\<exists>ls. Levels (result (level_loop k cfg (match_init k cfg t r))) = Levels r @ ls
      \<and> (\<forall>l \<in> set ls. 1 \<le> length (Iterations l)
            \<and> int (length (Iterations l)) \<le> max 1 (MaxIterationsPerLevel cfg))"
    by simp
  have budget: "1 \<le> MaxIterationsPerLevel cfg \<longrightarrow>
      int (length (Iterations (level_stats (run_level k cfg s))))
        \<le> MaxIterationsPerLevel cfg"
    using count [of s] by auto
  show ?thesis
    using loop count [of s] budget levels by (intro conjI) blast+
qed

theorem C6_loop_condition_and_bound_witness:
  "1 \<le> MaxIterationsPerLevel cfg_single
   \<and> map (\<lambda>l. length (Iterations l))
        (Levels (result (level_loop k_descent cfg_single
           (match_init k_descent cfg_single tracker0 (result0 0))))) = [5]
   \<and> int 5 \<le> max 1 (MaxIterationsPerLevel cfg_single)
   \<and> int (length (Iterations (level_stats (run_level k_descent cfg_single
        (match_init k_descent cfg_single tracker0 (result0 0))))))
       \<le> MaxIterationsPerLevel cfg_single"
proof -
  have budget: "1 \<le> MaxIterationsPerLevel cfg_single"
    by code_simp
  have run: "map (\<lambda>l. length (Iterations l))
        (Levels (result (level_loop k_descent cfg_single
           (match_init k_descent cfg_single tracker0 (result0 0))))) = [5]"
    by code_simp
  note inst = C6_loop_condition_and_bound
    [where k = k_descent and cfg = cfg_single and t = tracker0 and r = "result0 0"
       and s = "match_init k_descent cfg_single tracker0 (result0 0)"]
  from inst budget have one: "int (length (Iterations (level_stats (run_level k_descent
      cfg_single (match_init k_descent cfg_single tracker0 (result0 0))))))
       \<le> MaxIterationsPerLevel cfg_single"
    by blast
  from inst obtain ls where ls:
    "Levels (result (level_loop k_descent cfg_single
       (match_init k_descent cfg_single tracker0 (result0 0)))) = Levels (result0 0) @ ls"
    "\<forall>l \<in> set ls. 1 \<le> length (Iterations l)
        \<and> int (length (Iterations l)) \<le> max 1 (MaxIterationsPerLevel cfg_single)"
    by blast
  from run ls(1) have "map (\<lambda>l. length (Iterations l)) ls = [5]"
    by (simp add: result0_def)
  with ls(2) have "int 5 \<le> max 1 (MaxIterationsPerLevel cfg_single)"
    by auto
  with budget run one show ?thesis by blast
qed

text \<open>
  C7. At the start of every level the iteration count is zero, so the first iteration
  takes the branch of line 278: every slot of the weight buffer that belongs to a
  residual computed in that iteration holds exactly 1 afterwards, the buffer keeps its
  length, and the result is the same whatever weight and scale kernels are configured.
  The mean and the precision that the level before left are not used: the iteration is
  the same whatever they were.
\<close>

theorem C7_first_iteration_unit_weights:
  fixes k :: "('p, 'v, 'm, 'e) kernels"
  shows
    "IsFirstIterationOnLevel (level_start k cfg s)
     \<and> length (weights (iteration_body k cfg (level_start k cfg s))) = length (weights s)
     \<and> (\<forall>i < min (length (residuals (iteration_body k cfg (level_start k cfg s))))
                 (length (weights s)).
           weights (iteration_body k cfg (level_start k cfg s)) ! i = Num 1)
     \<and> weights (iteration_body (k\<lparr>computeWeightsSse := f, computeScaleSse_inverse := g\<rparr>) cfg
          (level_start (k\<lparr>computeWeightsSse := f, computeScaleSse_inverse := g\<rparr>) cfg s)) =
        weights (iteration_body k cfg (level_start k cfg s))
     \<and> iteration_body k cfg (level_start k cfg (s\<lparr>mean := m, precision := p\<rparr>)) =
        iteration_body k cfg (level_start k cfg s)"
proof -
  have w: "weights (iteration_body k cfg (level_start k cfg s)) =
      fill_n (weights s)
        (length (snd (computeResidualsSse k (Level s)
           (se3_mul k (se3_exp k (se3_log k (inc s))) (current (estimate s)))))) (Num 1)"
    for k :: "('p, 'v, 'm, 'e) kernels"
    by (simp add: body_defs level_start_def IsFirstIterationOnLevel_def update_def
        split: prod.splits)
  have r: "residuals (iteration_body k cfg (level_start k cfg s)) =
      snd (computeResidualsSse k (Level s)
           (se3_mul k (se3_exp k (se3_log k (inc s))) (current (estimate s))))"
    by (simp add: body_defs level_start_def update_def split: prod.splits)
  have first: "IsFirstIterationOnLevel (level_start k cfg s)"
    by (simp add: IsFirstIterationOnLevel_def level_start_def)
  have len: "length (weights (iteration_body k cfg (level_start k cfg s))) = length (weights s)"
    by (simp add: w fill_n_def)
  have ones: "\<forall>i < min (length (residuals (iteration_body k cfg (level_start k cfg s))))
                 (length (weights s)).
           weights (iteration_body k cfg (level_start k cfg s)) ! i = Num 1"
    by (simp add: w r fill_n_def nth_append)
  have same: "weights (iteration_body (k\<lparr>computeWeightsSse := f, computeScaleSse_inverse := g\<rparr>)
          cfg (level_start (k\<lparr>computeWeightsSse := f, computeScaleSse_inverse := g\<rparr>) cfg s)) =
        weights (iteration_body k cfg (level_start k cfg s))"
    by (simp add: w)
  have fresh: "iteration_body k cfg (level_start k cfg (s\<lparr>mean := m, precision := p\<rparr>)) =
        iteration_body k cfg (level_start k cfg s)"
    by (simp add: level_start_def)
  show ?thesis
    using first len ones same fresh by (intro conjI)
qed

theorem C7_first_iteration_unit_weights_witness:
  "length (residuals (iteration_body k_two_points cfg_single
      (level_start k_two_points cfg_single
         (match_init k_two_points cfg_single tracker_used (result0 0))))) = 2
   \<and> weights (match_init k_two_points cfg_single tracker_used (result0 0)) =
       [Num 7, Num 7, Num 7]
   \<and> weights (iteration_body k_two_points cfg_single
        (level_start k_two_points cfg_single
           (match_init k_two_points cfg_single tracker_used (result0 0)))) ! 0 = Num 1
   \<and> weights (iteration_body k_two_points cfg_single
        (level_start k_two_points cfg_single
           (match_init k_two_points cfg_single tracker_used (result0 0)))) ! 1 = Num 1"
proof -
  let ?s = "match_init k_two_points cfg_single tracker_used (result0 0)"
  have n: "length (residuals (iteration_body k_two_points cfg_single
      (level_start k_two_points cfg_single ?s))) = 2"
    by code_simp
  have buf: "weights ?s = [Num 7, Num 7, Num 7]"
    by code_simp
  from C7_first_iteration_unit_weights [of k_two_points cfg_single ?s]
  have "\<forall>i < min (length (residuals (iteration_body k_two_points cfg_single
                    (level_start k_two_points cfg_single ?s))))
                 (length (weights ?s)).
           weights (iteration_body k_two_points cfg_single
             (level_start k_two_points cfg_single ?s)) ! i = Num 1"
    by blast
  then have "\<forall>i < 2. weights (iteration_body k_two_points cfg_single
             (level_start k_two_points cfg_single ?s)) ! i = Num 1"
    by (simp only: n buf) simp
  then have "weights (iteration_body k_two_points cfg_single
        (level_start k_two_points cfg_single ?s)) ! 0 = Num 1"
    and "weights (iteration_body k_two_points cfg_single
        (level_start k_two_points cfg_single ?s)) ! 1 = Num 1"
    by simp_all
  with n buf show ?thesis by blast
qed

text \<open>
  C8. \<open>match\<close> never returns false: whenever it returns a result, on any input and
  whatever the statistics say, the flag is true. The same holds for the variant that
  takes and returns a transformation.
\<close>

theorem C8_success_always_true:
  fixes k :: "('p, 'v, 'm, 'e) kernels"
  shows "match k cfg t r \<noteq> Inr (False, r')
     \<and> match_transformation k cfg t T l \<noteq> Inr (False, p)
     \<and> (isl (match k cfg t r) \<or> fst (projr (match k cfg t r)))"
  by (auto simp: match_def match_transformation_def Let_def split: sum.splits)

theorem C8_success_always_true_witness:
  "\<not> isl (match k_empty cfg_single tracker0 (result0 0))
   \<and> fst (projr (match k_empty cfg_single tracker0 (result0 0)))
   \<and> map ValidConstraints (concat (map Iterations
        (Levels (snd (projr (match k_empty cfg_single tracker0 (result0 0))))))) = [0]"
proof -
  have returns: "\<not> isl (match k_empty cfg_single tracker0 (result0 0))"
    by code_simp
  have stats: "map ValidConstraints (concat (map Iterations
        (Levels (snd (projr (match k_empty cfg_single tracker0 (result0 0))))))) = [0]"
    by code_simp
  from returns C8_success_always_true [of k_empty cfg_single tracker0 "result0 0"]
  have "fst (projr (match k_empty cfg_single tracker0 (result0 0)))"
    by blast
  with returns stats show ?thesis by blast
qed

text \<open>
  C9. The claim is that the read of line 443 stays within the records of the last
  level. It does not: with two levels, a level 1 that descends and is left by a
  rejection, and a level 0 without a valid point, the only iteration of level 0 is
  rejected, the re-seeded increment is above the precision, the recorded reason is
  \<open>LogLikelihoodDecreased\<close>, and \<open>Iterations[size() - 2]\<close> is read from a list of one.
  The weight buffer holds one slot and no iteration has more than one residual, so the
  run stays within the buffers up to that read.
\<close>

theorem C9_lookup_out_of_range:
  "match k_lost cfg_two_levels tracker0 (result0 0) = Inl IndexOutOfRange
   \<and> TerminationCriterion (last (Levels (result (level_loop k_lost cfg_two_levels
        (match_init k_lost cfg_two_levels tracker0 (result0 0)))))) =
      Some LogLikelihoodDecreased
   \<and> map ValidConstraints (Iterations (last (Levels (result (level_loop k_lost cfg_two_levels
        (match_init k_lost cfg_two_levels tracker0 (result0 0))))))) = [0]
   \<and> map TDistributionLogLikelihood (Iterations (last (Levels (result
        (level_loop k_lost cfg_two_levels
           (match_init k_lost cfg_two_levels tracker0 (result0 0))))))) = [NaN]
   \<and> length (weights (level_loop k_lost cfg_two_levels
        (match_init k_lost cfg_two_levels tracker0 (result0 0)))) = 1
   \<and> map (\<lambda>l. map ValidConstraints (Iterations l))
        (Levels (result (level_loop k_lost cfg_two_levels
           (match_init k_lost cfg_two_levels tracker0 (result0 0))))) =
      [1, 1, 1, 1, 1] # [0] # []"
  by code_simp

text \<open>
  C10 as stated fails where a level is left by a rejection. At level 1 the iterations
  apply the increments 0, 1 and 5; the first two are accepted and leave the estimate
  at 1, the third is rejected and taken back. Level 0 is seeded with 5, the rejected
  increment, and its first trial is 6, not the estimate composed with the last
  accepted increment.
\<close>

theorem C10_counterexample:
  "\<not> accept (next_level k_overshoot cfg_two_levels
        (match_init k_overshoot cfg_two_levels tracker0 (result0 0)))
   \<and> map EstimateIncrement (Iterations (level_stats (next_level k_overshoot cfg_two_levels
        (match_init k_overshoot cfg_two_levels tracker0 (result0 0))))) =
      [Some (Num 1), Some (Num 5), None]
   \<and> current (estimate (next_level k_overshoot cfg_two_levels
        (match_init k_overshoot cfg_two_levels tracker0 (result0 0)))) = 1
   \<and> x_inc (level_start k_overshoot cfg_two_levels
        (next_level k_overshoot cfg_two_levels
           (match_init k_overshoot cfg_two_levels tracker0 (result0 0)))) = Num 5
   \<and> current (estimate (stage_increment k_overshoot
        (level_start k_overshoot cfg_two_levels
           (next_level k_overshoot cfg_two_levels
              (match_init k_overshoot cfg_two_levels tracker0 (result0 0)))))) = 6
   \<and> se3_mul k_overshoot (se3_exp k_overshoot (Num 1))
        (current (estimate (next_level k_overshoot cfg_two_levels
           (match_init k_overshoot cfg_two_levels tracker0 (result0 0))))) = 2"
  by code_simp

text \<open>
  C10, amended. Every level seeds \<open>x\<close> with the logarithm of \<open>inc\<close>, so its first trial
  is the estimate composed with \<open>exp (log inc)\<close>. \<open>inc\<close> is the increment of the last
  iteration that ran, whether that iteration was accepted or rejected and taken back:
  a level ends with an iteration, that iteration leaves its increment in \<open>inc\<close>, and
  the estimate contains it only if it was accepted. Before the first level \<open>inc\<close> is
  the guess (the identity when \<open>UseInitialEstimate\<close> is off) and the estimate is the
  identity.
\<close>

theorem C10_reseed_from_last_increment:
  fixes k :: "('p, 'v, 'm, 'e) kernels"
  shows
    "x_inc (level_start k cfg s) = se3_log k (inc s)
     \<and> current (estimate (stage_increment k (level_start k cfg s))) =
         se3_mul k (se3_exp k (se3_log k (inc s))) (current (estimate s))
     \<and> inc (iteration_body k cfg s) = se3_exp k (x_inc s)
     \<and> (\<exists>u. inner_loop k cfg (level_start k cfg s) = iteration_body k cfg u
            \<and> inc (next_level k cfg s) = se3_exp k (x_inc u)
            \<and> current (estimate (next_level k cfg s)) =
                (if accept (next_level k cfg s)
                 then se3_mul k (se3_exp k (x_inc u)) (current (estimate u))
                 else current (estimate u)))
     \<and> inc (match_init k cfg t r) =
         se3_of_affine k (if UseInitialEstimate cfg then Transformation r
                          else affine_identity k)
     \<and> current (estimate (match_init k cfg t r)) = se3_identity k"
proof -
  obtain u where u: "inner_loop k cfg (level_start k cfg s) = iteration_body k cfg u"
    using inner_loop_ends_with_body [of k cfg "level_start k cfg s"] by blast
  have "inc (next_level k cfg s) = se3_exp k (x_inc u)"
    by (simp add: next_level_def Let_def inc_after_run_level u inc_after_body)
  moreover have "current (estimate (next_level k cfg s)) =
      (if accept (next_level k cfg s)
       then se3_mul k (se3_exp k (x_inc u)) (current (estimate u))
       else current (estimate u))"
    by (simp add: next_level_def Let_def estimate_after_run_level accept_after_run_level u
        estimate_after_body)
  ultimately have last_iteration:
    "\<exists>u. inner_loop k cfg (level_start k cfg s) = iteration_body k cfg u
        \<and> inc (next_level k cfg s) = se3_exp k (x_inc u)
        \<and> current (estimate (next_level k cfg s)) =
            (if accept (next_level k cfg s)
             then se3_mul k (se3_exp k (x_inc u)) (current (estimate u))
             else current (estimate u))"
    using u by blast
  have init: "inc (match_init k cfg t r) =
      se3_of_affine k (if UseInitialEstimate cfg then Transformation r else affine_identity k)"
    and est: "current (estimate (match_init k cfg t r)) = se3_identity k"
    by (simp_all add: match_init_def Let_def Revertable_of_def)
  show ?thesis
    using x_inc_level_start [of k cfg s] first_trial [of k cfg s] inc_after_body [of k cfg s]
      last_iteration init est
    by (intro conjI)
qed

theorem C10_reseed_from_last_increment_witness:
  "inc (next_level k_overshoot cfg_two_levels
      (match_init k_overshoot cfg_two_levels tracker0 (result0 0))) = 5
   \<and> x_inc (level_start k_overshoot cfg_two_levels
        (next_level k_overshoot cfg_two_levels
           (match_init k_overshoot cfg_two_levels tracker0 (result0 0)))) = Num 5"
proof -
  let ?s = "next_level k_overshoot cfg_two_levels
      (match_init k_overshoot cfg_two_levels tracker0 (result0 0))"
  have last_inc: "inc ?s = 5"
    by code_simp
  from C10_reseed_from_last_increment [of k_overshoot cfg_two_levels ?s]
  have "x_inc (level_start k_overshoot cfg_two_levels ?s) = se3_log k_overshoot (inc ?s)"
    by blast
  then have "x_inc (level_start k_overshoot cfg_two_levels ?s) = Num 5"
    by (simp add: last_inc) (simp add: k_overshoot_def toy_def)
  with last_inc show ?thesis by blast
qed

end
